theory Spec2Isabelle
  imports Complex_Main "HOL-Library.Word"
begin

section \<open>STYX: a shallow embedding of the belief-computation core\<close>

text \<open>
  The Go packages \<open>types\<close>, \<open>time\<close>, \<open>evidence\<close>, \<open>witness\<close>, \<open>partition\<close>,
  \<open>finality\<close> and \<open>oracle\<close> are translated function by function. Unsigned 64-bit
  integers are \<open>64 word\<close>. Mutexes are omitted: every method body is one critical
  section and is modelled as one state transformer.

  Floats are modelled in two ways. Weights, trust scores and belief masses are
  idealised as reals: their rounding moves a result by a rounding error and is not
  modelled. The exponent that \<open>pow\<close> counts down decides whether its loop ends, so it is
  a binary64 number here: the conversion of an integer, the quotient and the decrement
  round to nearest, ties to even, with a significand of 53 bits, and a division by zero
  gives infinity or not-a-number, which the code branches on.
\<close>

subsection \<open>Package \<open>types\<close>: node identity, confidence, belief\<close>

record NodeID =
  Base :: "64 word"
  Generation :: "64 word"

definition NewNodeID :: "64 word \<Rightarrow> NodeID" where
  "NewNodeID base = \<lparr>Base = base, Generation = 0\<rparr>"

datatype types_error =
    ErrConfidenceBelowMinimum
  | ErrConfidenceAboveMaximum
  | ErrBeliefInvalidSum

text \<open>A \<open>Confidence\<close> wraps one float; the model keeps the wrapped value.\<close>

definition NewConfidence :: "real \<Rightarrow> types_error + real" where
  "NewConfidence v =
     (if v < 0 then Inl ErrConfidenceBelowMinimum
      else if v > 1 then Inl ErrConfidenceAboveMaximum
      else Inr v)"

record Belief =
  alive :: real
  dead :: real
  unknown :: real

datatype BeliefState = StateUnknown | StateAlive | StateDead

definition BeliefSumEpsilon :: real where
  "BeliefSumEpsilon = 1 / 10 ^ 9"

definition DominantMargin :: real where
  "DominantMargin = 1 / 10"

definition NewBelief :: "real \<Rightarrow> real \<Rightarrow> real \<Rightarrow> types_error + Belief" where
  "NewBelief a d u =
     (if \<bar>(a + d + u) - 1\<bar> > BeliefSumEpsilon then Inl ErrBeliefInvalidSum
      else case NewConfidence a of Inl e \<Rightarrow> Inl e | Inr ac \<Rightarrow>
           (case NewConfidence d of Inl e \<Rightarrow> Inl e | Inr dc \<Rightarrow>
           (case NewConfidence u of Inl e \<Rightarrow> Inl e | Inr uc \<Rightarrow>
              Inr \<lparr>alive = ac, dead = dc, unknown = uc\<rparr>)))"

definition UnknownBelief :: Belief where
  "UnknownBelief = \<lparr>alive = 0, dead = 0, unknown = 1\<rparr>"

definition Dominant :: "Belief \<Rightarrow> BeliefState" where
  "Dominant b =
     (if alive b > dead b + DominantMargin \<and> alive b > unknown b + DominantMargin
        then StateAlive
      else if dead b > alive b + DominantMargin \<and> dead b > unknown b + DominantMargin
        then StateDead
      else StateUnknown)"

subsection \<open>Package \<open>witness\<close>: reports\<close>

record WitnessReport =
  Witness :: NodeID
  Target :: NodeID
  RBelief :: Belief
  RTrust :: real

subsection \<open>Package \<open>finality\<close>: the finality engine\<close>

datatype finality_error =
    ErrAlreadyDead
  | ErrInsufficientEvidence
  | ErrSilenceOnly
  | ErrResurrection

definition MinDeadConfidence :: real where
  "MinDeadConfidence = 85 / 100"

definition MinWitnesses :: nat where
  "MinWitnesses = 3"

definition MaxDisagreement :: real where
  "MaxDisagreement = 2 / 10"

record DeathRecord =
  DNodeID :: NodeID
  FinalBelief :: Belief
  Witnesses :: "NodeID list"
  Reason :: string

text \<open>
  The engine's state is its \<open>dead\<close> map. Its \<open>registry\<close> field is a pointer that no
  method of the engine dereferences, so it is not part of the modelled state.
\<close>

record Engine =
  dead_map :: "NodeID \<rightharpoonup> DeathRecord"

definition NewEngine :: Engine where
  "NewEngine = \<lparr>dead_map = Map.empty\<rparr>"

definition IsDead :: "Engine \<Rightarrow> NodeID \<Rightarrow> bool" where
  "IsDead e n = (case dead_map e n of None \<Rightarrow> False | Some _ \<Rightarrow> True)"

definition GetDeathRecord :: "Engine \<Rightarrow> NodeID \<Rightarrow> DeathRecord option" where
  "GetDeathRecord e n = dead_map e n"

text \<open>The two loops of \<open>calculateDisagreement\<close>: the sum, then the squared differences.\<close>

fun sum_dead :: "WitnessReport list \<Rightarrow> real \<Rightarrow> real" where
  "sum_dead [] s = s"
| "sum_dead (r # rs) s = sum_dead rs (s + dead (RBelief r))"

fun sum_sq_diff :: "WitnessReport list \<Rightarrow> real \<Rightarrow> real \<Rightarrow> real" where
  "sum_sq_diff [] avg v = v"
| "sum_sq_diff (r # rs) avg v =
     sum_sq_diff rs avg (v + (dead (RBelief r) - avg) * (dead (RBelief r) - avg))"

definition calculateDisagreement :: "WitnessReport list \<Rightarrow> real" where
  "calculateDisagreement reports =
     (if length reports < 2 then 0
      else let avgDead = sum_dead reports 0 / real (length reports)
           in sum_sq_diff reports avgDead 0 / real (length reports))"

definition DeclareDeath ::
  "Engine \<Rightarrow> NodeID \<Rightarrow> Belief \<Rightarrow> WitnessReport list \<Rightarrow> bool \<Rightarrow> finality_error option \<times> Engine"
where
  "DeclareDeath e nodeID aggregatedBelief witnessReports hasNonTimeoutEvidence =
     (if dead_map e nodeID \<noteq> None then (Some ErrAlreadyDead, e)
      else if dead aggregatedBelief < MinDeadConfidence then (Some ErrInsufficientEvidence, e)
      else if length witnessReports < MinWitnesses then (Some ErrInsufficientEvidence, e)
      else if \<not> hasNonTimeoutEvidence then (Some ErrSilenceOnly, e)
      else if calculateDisagreement witnessReports > MaxDisagreement
        then (Some ErrInsufficientEvidence, e)
      else (None,
            e\<lparr>dead_map := (dead_map e)(nodeID \<mapsto>
                 \<lparr>DNodeID = nodeID,
                  FinalBelief = aggregatedBelief,
                  Witnesses = map Witness witnessReports,
                  Reason = ''overwhelming evidence from multiple witnesses''\<rparr>)\<rparr>))"

definition AttemptResurrection :: "Engine \<Rightarrow> NodeID \<Rightarrow> finality_error option" where
  "AttemptResurrection e n = (if dead_map e n \<noteq> None then Some ErrResurrection else None)"

text \<open>
  Every exported method of the engine, as an operation on its state. Only
  \<open>DeclareDeath\<close> writes; the others read under the read lock.
\<close>

datatype engine_op =
    OpIsDead NodeID
  | OpGetDeathRecord NodeID
  | OpDeclareDeath NodeID Belief "WitnessReport list" bool
  | OpAttemptResurrection NodeID
  | OpAllDead

fun engine_step :: "Engine \<Rightarrow> engine_op \<Rightarrow> Engine" where
  "engine_step e (OpIsDead n) = e"
| "engine_step e (OpGetDeathRecord n) = e"
| "engine_step e (OpDeclareDeath n b rs f) = snd (DeclareDeath e n b rs f)"
| "engine_step e (OpAttemptResurrection n) = e"
| "engine_step e OpAllDead = e"

definition engine_run :: "Engine \<Rightarrow> engine_op list \<Rightarrow> Engine" where
  "engine_run e ops = foldl engine_step e ops"

text \<open>The variance of the reports' dead masses, as the specification words it.\<close>

definition dead_variance :: "WitnessReport list \<Rightarrow> real" where
  "dead_variance rs =
     (let n = real (length rs);
          mean = (\<Sum>r\<leftarrow>rs. dead (RBelief r)) / n
      in (\<Sum>r\<leftarrow>rs. (dead (RBelief r) - mean)\<^sup>2) / n)"

subsection \<open>Package \<open>time\<close>: logical timestamps\<close>

type_synonym LogicalTimestamp = "64 word"

definition AgeSince :: "LogicalTimestamp \<Rightarrow> LogicalTimestamp \<Rightarrow> 64 word" where
  "AgeSince t now = (if now < t then 0 else now - t)"

subsection \<open>Binary64 rounding\<close>

text \<open>
  Rounding to the nearest integer, a tie going to the even one; and rounding a real to
  the nearest number with a significand of 53 bits. The exponent range is not limited:
  the quantities rounded here are 0 or lie between \<open>2^-64\<close> and \<open>2^64\<close>.
\<close>

definition round_half_even :: "real \<Rightarrow> int" where
  "round_half_even y =
     (let f = \<lfloor>y\<rfloor> in
      if y - of_int f < 1 / 2 then f
      else if y - of_int f > 1 / 2 then f + 1
      else if even f then f else f + 1)"

definition pow2 :: "int \<Rightarrow> real" where
  "pow2 e = 2 powr of_int e"

definition f64_round :: "real \<Rightarrow> real" where
  "f64_round x =
     (if x = 0 then 0
      else let u = pow2 (\<lfloor>log 2 \<bar>x\<bar>\<rfloor> - 52)
           in of_int (round_half_even (x / u)) * u)"

text \<open>The conversion \<open>float64(n)\<close> of an unsigned 64-bit integer.\<close>

definition f64_of_u64 :: "64 word \<Rightarrow> real" where
  "f64_of_u64 n = f64_round (real (unat n))"

subsection \<open>Floats that a division by zero can produce\<close>

text \<open>
  \<open>float64(a) / float64(b)\<close> for unsigned integers \<open>a\<close>, \<open>b\<close> does not panic in Go: a zero
  divisor gives \<open>+Inf\<close> (or \<open>NaN\<close> for \<open>0 / 0\<close>). Comparisons with \<open>NaN\<close> are false, and
  \<open>+Inf - 1 = +Inf\<close>. A finite quotient and a finite difference are rounded.
\<close>

datatype f64 = Fin real | PosInf | NegInf | NaN

definition f64_div :: "real \<Rightarrow> real \<Rightarrow> f64" where
  "f64_div a b =
     (if b \<noteq> 0 then Fin (f64_round (a / b))
      else if a > 0 then PosInf
      else if a < 0 then NegInf
      else NaN)"

fun f64_gt :: "f64 \<Rightarrow> real \<Rightarrow> bool" where
  "f64_gt (Fin x) c = (x > c)"
| "f64_gt PosInf c = True"
| "f64_gt NegInf c = False"
| "f64_gt NaN c = False"

fun f64_ge :: "f64 \<Rightarrow> real \<Rightarrow> bool" where
  "f64_ge (Fin x) c = (x \<ge> c)"
| "f64_ge PosInf c = True"
| "f64_ge NegInf c = False"
| "f64_ge NaN c = False"

fun f64_eq :: "f64 \<Rightarrow> real \<Rightarrow> bool" where
  "f64_eq (Fin x) c = (x = c)"
| "f64_eq PosInf c = False"
| "f64_eq NegInf c = False"
| "f64_eq NaN c = False"

text \<open>The statement \<open>exp--\<close>: the difference \<open>exp - 1\<close>, rounded.\<close>

fun f64_dec :: "f64 \<Rightarrow> f64" where
  "f64_dec (Fin x) = Fin (f64_round (x - 1))"
| "f64_dec PosInf = PosInf"
| "f64_dec NegInf = NegInf"
| "f64_dec NaN = NaN"

subsection \<open>Package \<open>evidence\<close>: evidence records\<close>

datatype EvidenceKind =
    KindDirectResponse
  | KindTimeout
  | KindWitnessReport
  | KindCausalEvent
  | KindSchedulingJitter
  | KindNetworkInstability

record EvidenceDetails =
  LatencyMS :: "64 word"
  ExpectedMS :: "64 word"
  WaitedMS :: "64 word"
  DWitness :: NodeID
  ReportedState :: BeliefState
  WitnessConf :: real
  EventID :: "64 word"
  ObservedDelayMS :: "64 word"
  PacketLossRate :: real
  LatencyVarianceMS :: "64 word"

text \<open>The zero value of \<open>EvidenceDetails\<close>, which every composite literal starts from.\<close>

definition EvidenceDetails_zero :: EvidenceDetails where
  "EvidenceDetails_zero =
     \<lparr>LatencyMS = 0, ExpectedMS = 0, WaitedMS = 0,
      DWitness = \<lparr>Base = 0, Generation = 0\<rparr>, ReportedState = StateUnknown,
      WitnessConf = 0, EventID = 0, ObservedDelayMS = 0, PacketLossRate = 0,
      LatencyVarianceMS = 0\<rparr>"

record Evidence =
  Kind :: EvidenceKind
  Timestamp :: LogicalTimestamp
  Weight :: real
  Source :: NodeID
  ETarget :: NodeID
  Details :: EvidenceDetails

definition NewDirectResponse ::
  "LogicalTimestamp \<Rightarrow> 64 word \<Rightarrow> NodeID \<Rightarrow> NodeID \<Rightarrow> Evidence" where
  "NewDirectResponse ts latencyMS source target =
     \<lparr>Kind = KindDirectResponse, Timestamp = ts,
      Weight = (if latencyMS \<ge> 100 \<and> latencyMS < 1000 then 8 / 10
                else if latencyMS \<ge> 1000 then 6 / 10 else 1),
      Source = source, ETarget = target,
      Details = EvidenceDetails_zero\<lparr>LatencyMS := latencyMS\<rparr>\<rparr>"

definition NewTimeout ::
  "LogicalTimestamp \<Rightarrow> 64 word \<Rightarrow> 64 word \<Rightarrow> NodeID \<Rightarrow> NodeID \<Rightarrow> Evidence" where
  "NewTimeout ts expectedMS waitedMS source target =
     (let ratio = f64_div (f64_of_u64 waitedMS) (f64_of_u64 expectedMS)
      in \<lparr>Kind = KindTimeout, Timestamp = ts,
          Weight = (if f64_gt ratio 10 then 3 / 10
                    else if f64_gt ratio 3 then 2 / 10 else 1 / 10),
          Source = source, ETarget = target,
          Details = EvidenceDetails_zero\<lparr>ExpectedMS := expectedMS, WaitedMS := waitedMS\<rparr>\<rparr>)"

definition NewCausalEvent ::
  "LogicalTimestamp \<Rightarrow> 64 word \<Rightarrow> NodeID \<Rightarrow> NodeID \<Rightarrow> Evidence" where
  "NewCausalEvent ts eventID source target =
     \<lparr>Kind = KindCausalEvent, Timestamp = ts, Weight = 1,
      Source = source, ETarget = target,
      Details = EvidenceDetails_zero\<lparr>EventID := eventID\<rparr>\<rparr>"


definition SuggestsAlive :: "Evidence \<Rightarrow> bool" where
  "SuggestsAlive e = (Kind e = KindDirectResponse \<or> Kind e = KindCausalEvent)"

definition SuggestsDead :: "Evidence \<Rightarrow> bool" where
  "SuggestsDead e = (Kind e = KindTimeout)"

text \<open>
  \<open>pow\<close>: the loop \<open>for exp >= 1 { result *= base; exp-- }\<close> runs forever when \<open>exp\<close> is
  \<open>+Inf\<close>, or so large that \<open>exp - 1\<close> rounds back to \<open>exp\<close>, so it is a partial
  function: \<open>None\<close> is "does not return". It yields the accumulated product and what is
  left of the exponent.
\<close>

partial_function (option) pow_loop :: "real \<Rightarrow> real \<Rightarrow> f64 \<Rightarrow> (real \<times> f64) option" where
  "pow_loop base result expo =
     (if f64_ge expo 1 then pow_loop base (result * base) (f64_dec expo)
      else Some (result, expo))"

definition pow :: "real \<Rightarrow> f64 \<Rightarrow> real option" where
  "pow base expo =
     (if f64_eq expo 0 then Some 1
      else case pow_loop base 1 expo of
             None \<Rightarrow> None
           | Some (result, rest) \<Rightarrow>
               Some (case rest of
                       Fin x \<Rightarrow> if x > 0 then result * (1 + x * (base - 1)) else result
                     | _ \<Rightarrow> result))"

definition EffectiveWeight :: "Evidence \<Rightarrow> LogicalTimestamp \<Rightarrow> 64 word \<Rightarrow> real option" where
  "EffectiveWeight e now halfLife =
     (let age = AgeSince (Timestamp e) now
      in case pow (1 / 2) (f64_div (f64_of_u64 age) (f64_of_u64 halfLife)) of
           None \<Rightarrow> None
         | Some decayFactor \<Rightarrow> Some (Weight e * decayFactor))"

subsection \<open>Package \<open>evidence\<close>: evidence sets\<close>

record EvidenceSet =
  evidence :: "Evidence list"
  halfLife :: "64 word"

definition DefaultHalfLife :: "64 word" where
  "DefaultHalfLife = 100"

definition NewEvidenceSet :: EvidenceSet where
  "NewEvidenceSet = \<lparr>evidence = [], halfLife = DefaultHalfLife\<rparr>"

definition WithHalfLife :: "64 word \<Rightarrow> EvidenceSet" where
  "WithHalfLife h = \<lparr>evidence = [], halfLife = h\<rparr>"

definition Add :: "EvidenceSet \<Rightarrow> Evidence \<Rightarrow> EvidenceSet" where
  "Add es e = es\<lparr>evidence := evidence es @ [e]\<rparr>"

definition IsEmpty :: "EvidenceSet \<Rightarrow> bool" where
  "IsEmpty es = (length (evidence es) = 0)"

text \<open>
  The first loop of \<open>ComputeBelief\<close>, with its accumulators
  \<open>(aliveWeight, deadWeight, totalWeight)\<close>. It does not return when one call of
  \<open>EffectiveWeight\<close> does not.
\<close>

fun sum_weights ::
  "Evidence list \<Rightarrow> LogicalTimestamp \<Rightarrow> 64 word \<Rightarrow> real \<times> real \<times> real
     \<Rightarrow> (real \<times> real \<times> real) option" where
  "sum_weights [] now h acc = Some acc"
| "sum_weights (e # es) now h (aliveWeight, deadWeight, totalWeight) =
     (case EffectiveWeight e now h of
        None \<Rightarrow> None
      | Some w \<Rightarrow>
          sum_weights es now h
            (if SuggestsAlive e then aliveWeight + w else aliveWeight,
             if \<not> SuggestsAlive e \<and> SuggestsDead e then deadWeight + w else deadWeight,
             totalWeight + w))"

text \<open>
  What \<open>ComputeBelief\<close> does with the three sums once the loop has ended, in three
  pieces: the conflict factor (Property 9), the floor on unknown with the construction
  of the belief and its fallback (Property 8), and the cap on certainty that feeds
  them (Property 7).
\<close>

definition conflictFactor_of :: "real \<Rightarrow> real \<Rightarrow> real" where
  "conflictFactor_of aliveWeight deadWeight =
     (if aliveWeight > 0 \<and> deadWeight > 0
      then let balance = min aliveWeight deadWeight / max aliveWeight deadWeight
           in 1 - (balance * (1 / 2))
      else 1)"

definition floored_belief :: "real \<Rightarrow> real \<Rightarrow> Belief" where
  "floored_belief aliveConf deadConf =
     (let unknownConf = 1 - aliveConf - deadConf;
          excess = 5 / 100 - unknownConf;
          aliveConf' = (if unknownConf < 5 / 100 then aliveConf - excess / 2 else aliveConf);
          deadConf' = (if unknownConf < 5 / 100 then deadConf - excess / 2 else deadConf);
          unknownConf' = (if unknownConf < 5 / 100 then 5 / 100 else unknownConf)
      in case NewBelief aliveConf' deadConf' unknownConf' of
           Inl err \<Rightarrow> UnknownBelief
         | Inr belief \<Rightarrow> belief)"

definition belief_of_weights :: "real \<Rightarrow> real \<Rightarrow> real \<Rightarrow> Belief" where
  "belief_of_weights aliveWeight deadWeight totalWeight =
     (if totalWeight < 1 / 10 ^ 10 then UnknownBelief
      else
        let maxCertainty = min (totalWeight / (totalWeight + 1)) (90 / 100);
            aliveRatio = aliveWeight / totalWeight;
            deadRatio = deadWeight / totalWeight;
            conflictFactor = conflictFactor_of aliveWeight deadWeight
        in floored_belief (aliveRatio * maxCertainty * conflictFactor)
                          (deadRatio * maxCertainty * conflictFactor))"

definition ComputeBelief :: "EvidenceSet \<Rightarrow> LogicalTimestamp \<Rightarrow> Belief option" where
  "ComputeBelief es now =
     (if IsEmpty es then Some UnknownBelief
      else case sum_weights (evidence es) now (halfLife es) (0, 0, 0) of
             None \<Rightarrow> None
           | Some (aliveWeight, deadWeight, totalWeight) \<Rightarrow>
               Some (belief_of_weights aliveWeight deadWeight totalWeight))"

subsection \<open>Package \<open>witness\<close>: the registry and trust\<close>

definition MaxTrust :: real where
  "MaxTrust = 1"

definition MinTrust :: real where
  "MinTrust = 1 / 10"

definition DefaultTrust :: real where
  "DefaultTrust = 8 / 10"

definition DecayRate :: real where
  "DecayRate = 1 / 10"

definition RecoveryRate :: real where
  "RecoveryRate = 5 / 100"

record WitnessRecord =
  ID :: NodeID
  Trust :: real
  CorrectReports :: int
  WrongReports :: int
  LastReport :: Belief

record Registry =
  witnesses :: "NodeID \<rightharpoonup> WitnessRecord"

definition NewRegistry :: Registry where
  "NewRegistry = \<lparr>witnesses = Map.empty\<rparr>"

text \<open>A fresh record: the literal \<open>WitnessRecord{ID: id, Trust: DefaultTrust}\<close>.\<close>

definition fresh_record :: "NodeID \<Rightarrow> WitnessRecord" where
  "fresh_record n =
     \<lparr>ID = n, Trust = DefaultTrust, CorrectReports = 0, WrongReports = 0,
      LastReport = \<lparr>alive = 0, dead = 0, unknown = 0\<rparr>\<rparr>"

definition Register :: "Registry \<Rightarrow> NodeID \<Rightarrow> Registry" where
  "Register r n =
     (case witnesses r n of
        None \<Rightarrow> r\<lparr>witnesses := (witnesses r)(n \<mapsto> fresh_record n)\<rparr>
      | Some _ \<Rightarrow> r)"

definition GetTrust :: "Registry \<Rightarrow> NodeID \<Rightarrow> real" where
  "GetTrust r n = (case witnesses r n of Some w \<Rightarrow> Trust w | None \<Rightarrow> DefaultTrust)"

text \<open>\<open>getOrCreate\<close> returns the record the map points to, and the map with it in place.\<close>

definition getOrCreate :: "Registry \<Rightarrow> NodeID \<Rightarrow> WitnessRecord \<times> Registry" where
  "getOrCreate r n =
     (case witnesses r n of
        Some w \<Rightarrow> (w, r)
      | None \<Rightarrow> (fresh_record n, r\<lparr>witnesses := (witnesses r)(n \<mapsto> fresh_record n)\<rparr>))"

definition RecordCorrect :: "Registry \<Rightarrow> NodeID \<Rightarrow> Registry" where
  "RecordCorrect r n =
     (let (w, r1) = getOrCreate r n;
          w1 = w\<lparr>CorrectReports := CorrectReports w + 1\<rparr>;
          w2 = w1\<lparr>Trust := Trust w1 + RecoveryRate\<rparr>;
          w3 = (if Trust w2 > MaxTrust then w2\<lparr>Trust := MaxTrust\<rparr> else w2)
      in r1\<lparr>witnesses := (witnesses r1)(n \<mapsto> w3)\<rparr>)"

definition RecordWrong :: "Registry \<Rightarrow> NodeID \<Rightarrow> Registry" where
  "RecordWrong r n =
     (let (w, r1) = getOrCreate r n;
          w1 = w\<lparr>WrongReports := WrongReports w + 1\<rparr>;
          w2 = w1\<lparr>Trust := Trust w1 - DecayRate\<rparr>;
          w3 = (if Trust w2 < MinTrust then w2\<lparr>Trust := MinTrust\<rparr> else w2)
      in r1\<lparr>witnesses := (witnesses r1)(n \<mapsto> w3)\<rparr>)"

definition RecordReport :: "Registry \<Rightarrow> NodeID \<Rightarrow> Belief \<Rightarrow> Registry" where
  "RecordReport r n b =
     (let (w, r1) = getOrCreate r n
      in r1\<lparr>witnesses := (witnesses r1)(n \<mapsto> w\<lparr>LastReport := b\<rparr>)\<rparr>)"

text \<open>The writing methods of the registry, as operations on its state.\<close>

datatype registry_op =
    OpRegister NodeID
  | OpRecordCorrect NodeID
  | OpRecordWrong NodeID
  | OpRecordReport NodeID Belief

fun registry_step :: "Registry \<Rightarrow> registry_op \<Rightarrow> Registry" where
  "registry_step r (OpRegister n) = Register r n"
| "registry_step r (OpRecordCorrect n) = RecordCorrect r n"
| "registry_step r (OpRecordWrong n) = RecordWrong r n"
| "registry_step r (OpRecordReport n b) = RecordReport r n b"

definition registry_run :: "Registry \<Rightarrow> registry_op list \<Rightarrow> Registry" where
  "registry_run r ops = foldl registry_step r ops"

subsection \<open>Package \<open>witness\<close>: the aggregator\<close>

record AggregateResult =
  ABelief :: Belief
  ADisagreement :: real
  AWitnessCount :: nat
  AReports :: "WitnessReport list"

text \<open>
  The averaging loop of \<open>Aggregate\<close>, with its accumulators
  \<open>(totalWeight, aliveSum, deadSum, unknownSum)\<close>.
\<close>

fun weighted_sums ::
  "Registry \<Rightarrow> WitnessReport list \<Rightarrow> real \<times> real \<times> real \<times> real
     \<Rightarrow> real \<times> real \<times> real \<times> real" where
  "weighted_sums reg [] acc = acc"
| "weighted_sums reg (r # rs) (totalWeight, aliveSum, deadSum, unknownSum) =
     (let trust = GetTrust reg (Witness r)
      in weighted_sums reg rs
           (totalWeight + trust,
            aliveSum + alive (RBelief r) * trust,
            deadSum + dead (RBelief r) * trust,
            unknownSum + unknown (RBelief r) * trust))"

fun variance_loop :: "WitnessReport list \<Rightarrow> real \<Rightarrow> real \<Rightarrow> real \<Rightarrow> real" where
  "variance_loop [] avgAlive avgDead v = v"
| "variance_loop (r # rs) avgAlive avgDead v =
     (let diffAlive = alive (RBelief r) - avgAlive;
          diffDead = dead (RBelief r) - avgDead
      in variance_loop rs avgAlive avgDead (v + (diffAlive * diffAlive + diffDead * diffDead)))"

definition Aggregator_calculateDisagreement ::
  "WitnessReport list \<Rightarrow> real \<Rightarrow> real \<Rightarrow> real" where
  "Aggregator_calculateDisagreement reports avgAlive avgDead =
     (if length reports < 2 then 0
      else min (sqrt (variance_loop reports avgAlive avgDead 0 / real (length reports))) 1)"

fun total_diff :: "Belief \<Rightarrow> WitnessReport list \<Rightarrow> real \<Rightarrow> real" where
  "total_diff first [] t = t"
| "total_diff first (r # rs) t =
     (let diffAlive = \<bar>alive first - alive (RBelief r)\<bar>;
          diffDead = \<bar>dead first - dead (RBelief r)\<bar>
      in total_diff first rs (t + (diffAlive + diffDead)))"

definition detectCorrelation :: "WitnessReport list \<Rightarrow> real" where
  "detectCorrelation reports =
     (if length reports < 2 then 0
      else let first = RBelief (hd reports);
               totalDiff = total_diff first (tl reports) 0;
               avgDiff = totalDiff / real (length reports - 1)
           in 1 - min (avgDiff * 2) 1)"

text \<open>
  The tail of \<open>Aggregate\<close>, from the correlation penalty on: the penalty (P11), the
  disagreement widening (P10), the floor on unknown, and the construction of the
  belief with its fallback.
\<close>

definition penalise :: "real \<Rightarrow> real \<times> real \<times> real \<Rightarrow> real \<times> real \<times> real" where
  "penalise correlation avgs =
     (case avgs of (avgAlive, avgDead, avgUnknown) \<Rightarrow>
        if correlation > 9 / 10
        then (avgAlive * (7 / 10), avgDead * (7 / 10),
              1 - avgAlive * (7 / 10) - avgDead * (7 / 10))
        else (avgAlive, avgDead, avgUnknown))"

definition widen :: "real \<Rightarrow> real \<times> real \<times> real \<Rightarrow> real \<times> real \<times> real" where
  "widen disagreement avgs =
     (case avgs of (avgAlive, avgDead, avgUnknown) \<Rightarrow>
        if disagreement > 3 / 10
        then let reduction = disagreement * (1 / 2)
             in (avgAlive * (1 - reduction), avgDead * (1 - reduction),
                 1 - avgAlive * (1 - reduction) - avgDead * (1 - reduction))
        else (avgAlive, avgDead, avgUnknown))"

definition floor_unknown :: "real \<times> real \<times> real \<Rightarrow> real \<times> real \<times> real" where
  "floor_unknown avgs =
     (case avgs of (avgAlive, avgDead, avgUnknown) \<Rightarrow>
        if avgUnknown < 5 / 100
        then let excess = 5 / 100 - (1 - avgAlive - avgDead)
             in (avgAlive - excess / 2, avgDead - excess / 2, 5 / 100)
        else (avgAlive, avgDead, avgUnknown))"

definition belief_or_unknown :: "real \<times> real \<times> real \<Rightarrow> Belief" where
  "belief_or_unknown avgs =
     (case avgs of (avgAlive, avgDead, avgUnknown) \<Rightarrow>
        case NewBelief avgAlive avgDead avgUnknown of
          Inl err \<Rightarrow> UnknownBelief
        | Inr belief \<Rightarrow> belief)"

definition Aggregate :: "Registry \<Rightarrow> WitnessReport list \<Rightarrow> AggregateResult" where
  "Aggregate reg reports =
     (if length reports = 0
        then \<lparr>ABelief = UnknownBelief, ADisagreement = 0, AWitnessCount = 0, AReports = []\<rparr>
      else if length reports = 1
        then \<lparr>ABelief = RBelief (hd reports), ADisagreement = 0, AWitnessCount = 1,
              AReports = reports\<rparr>
      else
        case weighted_sums reg reports (0, 0, 0, 0) of
          (totalWeight, aliveSum, deadSum, unknownSum) \<Rightarrow>
            if totalWeight < 1 / 1000
            then \<lparr>ABelief = UnknownBelief, ADisagreement = 0,
                  AWitnessCount = length reports, AReports = reports\<rparr>
            else
              let avgAlive = aliveSum / totalWeight;
                  avgDead = deadSum / totalWeight;
                  avgUnknown = unknownSum / totalWeight;
                  disagreement = Aggregator_calculateDisagreement reports avgAlive avgDead;
                  correlation = detectCorrelation reports
              in \<lparr>ABelief =
                    belief_or_unknown
                      (floor_unknown
                        (widen disagreement
                          (penalise correlation (avgAlive, avgDead, avgUnknown)))),
                  ADisagreement = disagreement,
                  AWitnessCount = length reports,
                  AReports = reports\<rparr>)"

subsection \<open>Package \<open>partition\<close>: the partition detector\<close>

datatype PartitionState = NoPartition | SuspectedPartition | ConfirmedPartition

record WitnessGroup =
  GWitnesses :: "NodeID list"
  GBeliefs :: "NodeID \<rightharpoonup> Belief"

record SplitReality =
  Groups :: "WitnessGroup list"
  SDisagreement :: real
  Ambiguous :: "NodeID list"

record Detector =
  state :: PartitionState
  lastSplit :: "SplitReality option"
  disagreementThreshold :: real

definition NewDetector :: Detector where
  "NewDetector = \<lparr>state = NoPartition, lastSplit = None, disagreementThreshold = 4 / 10\<rparr>"

definition min_go :: "nat \<Rightarrow> nat \<Rightarrow> nat" where
  "min_go a b = (if a < b then a else b)"

text \<open>The vote-counting loop, with \<open>(aliveVotes, deadVotes, unknownVotes)\<close>.\<close>

fun count_votes :: "WitnessReport list \<Rightarrow> nat \<times> nat \<times> nat \<Rightarrow> nat \<times> nat \<times> nat" where
  "count_votes [] acc = acc"
| "count_votes (r # rs) (aliveVotes, deadVotes, unknownVotes) =
     (case Dominant (RBelief r) of
        StateAlive \<Rightarrow> count_votes rs (aliveVotes + 1, deadVotes, unknownVotes)
      | StateDead \<Rightarrow> count_votes rs (aliveVotes, deadVotes + 1, unknownVotes)
      | StateUnknown \<Rightarrow> count_votes rs (aliveVotes, deadVotes, unknownVotes + 1))"

text \<open>The loop that fills the two witness groups \<open>(aliveGroup, deadGroup)\<close>.\<close>

fun fill_groups ::
  "WitnessReport list \<Rightarrow> NodeID \<Rightarrow> WitnessGroup \<times> WitnessGroup \<Rightarrow> WitnessGroup \<times> WitnessGroup"
where
  "fill_groups [] target acc = acc"
| "fill_groups (r # rs) target (aliveGroup, deadGroup) =
     (if Dominant (RBelief r) = StateAlive
      then fill_groups rs target
             (aliveGroup\<lparr>GWitnesses := GWitnesses aliveGroup @ [Witness r],
                         GBeliefs := (GBeliefs aliveGroup)(target \<mapsto> RBelief r)\<rparr>,
              deadGroup)
      else if Dominant (RBelief r) = StateDead
      then fill_groups rs target
             (aliveGroup,
              deadGroup\<lparr>GWitnesses := GWitnesses deadGroup @ [Witness r],
                        GBeliefs := (GBeliefs deadGroup)(target \<mapsto> RBelief r)\<rparr>)
      else fill_groups rs target (aliveGroup, deadGroup))"

definition Analyze ::
  "Detector \<Rightarrow> WitnessReport list \<Rightarrow> NodeID
     \<Rightarrow> (PartitionState \<times> SplitReality option) \<times> Detector" where
  "Analyze d reports target =
     (if length reports < 2 then ((NoPartition, None), d\<lparr>state := NoPartition\<rparr>)
      else
        case count_votes reports (0, 0, 0) of
          (aliveVotes, deadVotes, unknownVotes) \<Rightarrow>
            let total = length reports in
            if aliveVotes > 0 \<and> deadVotes > 0 then
              let disagreement = real (min_go aliveVotes deadVotes) / real total in
              if disagreement > disagreementThreshold d then
                (case fill_groups reports target
                        (\<lparr>GWitnesses = [], GBeliefs = Map.empty\<rparr>,
                         \<lparr>GWitnesses = [], GBeliefs = Map.empty\<rparr>) of
                   (aliveGroup, deadGroup) \<Rightarrow>
                     let split = \<lparr>Groups = [aliveGroup, deadGroup],
                                  SDisagreement = disagreement,
                                  Ambiguous = [target]\<rparr>
                     in ((ConfirmedPartition, Some split),
                         d\<lparr>state := ConfirmedPartition, lastSplit := Some split\<rparr>))
              else ((SuspectedPartition, None), d\<lparr>state := SuspectedPartition\<rparr>)
            else if real unknownVotes / real total > 1 / 2
              then ((SuspectedPartition, None), d\<lparr>state := SuspectedPartition\<rparr>)
            else ((NoPartition, None), d\<lparr>state := NoPartition\<rparr>))"

text \<open>The number of reports whose dominant state is \<open>s\<close>, as the specification counts.\<close>

definition votes :: "BeliefState \<Rightarrow> WitnessReport list \<Rightarrow> nat" where
  "votes s rs = length (filter (\<lambda>r. Dominant (RBelief r) = s) rs)"

subsection \<open>Package \<open>oracle\<close>: the oracle\<close>

record QueryResult =
  QTarget :: NodeID
  QBelief :: Belief
  Refused :: bool
  RefusalReason :: string
  Dead :: bool
  QWitnessCount :: nat
  QDisagreement :: real
  QPartitionState :: PartitionState
  QEvidence :: "string list"

record RequiredConfidence =
  MinAlive :: real
  MinDead :: real
  MaxUnknown :: real

definition DefaultRequirement :: RequiredConfidence where
  "DefaultRequirement = \<lparr>MinAlive = 0, MinDead = 0, MaxUnknown = 1\<rparr>"

definition StrictRequirement :: RequiredConfidence where
  "StrictRequirement = \<lparr>MinAlive = 7 / 10, MinDead = 7 / 10, MaxUnknown = 3 / 10\<rparr>"

text \<open>
  The oracle owns one registry, which its aggregator and its finality engine point
  to, one engine, one detector and the report lists.
\<close>

record Oracle =
  selfID :: NodeID
  registry :: Registry
  finality :: Engine
  partition :: Detector
  reports_of :: "NodeID \<rightharpoonup> WitnessReport list"

definition New :: "NodeID \<Rightarrow> Oracle" where
  "New self =
     \<lparr>selfID = self, registry = NewRegistry, finality = NewEngine,
      partition = NewDetector, reports_of = Map.empty\<rparr>"

definition RegisterWitness :: "Oracle \<Rightarrow> NodeID \<Rightarrow> Oracle" where
  "RegisterWitness ora n = ora\<lparr>registry := Register (registry ora) n\<rparr>"

text \<open>A missing key of the Go map reads as the nil slice, of length 0.\<close>

definition reports_for :: "Oracle \<Rightarrow> NodeID \<Rightarrow> WitnessReport list" where
  "reports_for ora target = (case reports_of ora target of None \<Rightarrow> [] | Some rs \<Rightarrow> rs)"

definition ReceiveReport :: "Oracle \<Rightarrow> NodeID \<Rightarrow> NodeID \<Rightarrow> Belief \<Rightarrow> Oracle" where
  "ReceiveReport ora witnessID target belief =
     (let report = \<lparr>Witness = witnessID, Target = target, RBelief = belief, RTrust = 0\<rparr>
      in ora\<lparr>registry := Register (registry ora) witnessID,
             reports_of := (reports_of ora)(target \<mapsto> reports_for ora target @ [report])\<rparr>)"

function itoa_loop :: "nat \<Rightarrow> string \<Rightarrow> string" where
  "itoa_loop n result =
     (if n > 0 then itoa_loop (n div 10) (char_of (48 + n mod 10) # result) else result)"
  by pat_completeness auto
termination
  by (relation "measure (\<lambda>(n, result). n)") auto

definition itoa :: "nat \<Rightarrow> string" where
  "itoa n = (if n = 0 then ''0'' else itoa_loop n [])"

definition QueryResult_zero :: "NodeID \<Rightarrow> QueryResult" where
  "QueryResult_zero target =
     \<lparr>QTarget = target, QBelief = \<lparr>alive = 0, dead = 0, unknown = 0\<rparr>, Refused = False,
      RefusalReason = [], Dead = False, QWitnessCount = 0, QDisagreement = 0,
      QPartitionState = NoPartition, QEvidence = []\<rparr>"

text \<open>
  The end of \<open>QueryWithRequirement\<close>, reached when the confidence check has not
  refused: the check of unknown against \<open>MaxUnknown\<close>, then the evidence list.
\<close>

definition check_unknown ::
  "QueryResult \<Rightarrow> AggregateResult \<Rightarrow> RequiredConfidence \<Rightarrow> nat \<Rightarrow> QueryResult" where
  "check_unknown result aggResult req n =
     (if unknown (ABelief aggResult) > MaxUnknown req then
        result\<lparr>Refused := True,
               RefusalReason := ''uncertainty too high'',
               QEvidence := QEvidence result @ [''unknown exceeds threshold'']\<rparr>
      else
        let result = result\<lparr>QEvidence := QEvidence result @
              [''aggregated '' @ itoa n @ '' witness reports'']\<rparr>
        in if QDisagreement result > 1 / 10
           then result\<lparr>QEvidence := QEvidence result @
                  [''some witness disagreement detected'']\<rparr>
           else result)"

text \<open>
  \<open>QueryWithRequirement\<close> returns the result and the oracle, whose detector \<open>Analyze\<close>
  has written to.
\<close>

definition QueryWithRequirement ::
  "Oracle \<Rightarrow> NodeID \<Rightarrow> RequiredConfidence \<Rightarrow> QueryResult \<times> Oracle" where
  "QueryWithRequirement ora target req =
     (let result = QueryResult_zero target in
      if IsDead (finality ora) target then
        (result\<lparr>Dead := True, QBelief := \<lparr>alive = 0, dead = 1, unknown = 0\<rparr>,
                QEvidence := QEvidence result @ [''finality: node declared dead'']\<rparr>, ora)
      else
        let reports = reports_for ora target;
            result = result\<lparr>QWitnessCount := length reports\<rparr> in
        if length reports = 0 then
          (result\<lparr>QBelief := UnknownBelief,
                  QEvidence := QEvidence result @ [''no witness reports available'']\<rparr>, ora)
        else
          case Analyze (partition ora) reports target of
            ((pState, split), det) \<Rightarrow>
              let ora = ora\<lparr>partition := det\<rparr>;
                  result = result\<lparr>QPartitionState := pState\<rparr> in
              if pState = ConfirmedPartition then
                (result\<lparr>Refused := True,
                        RefusalReason := ''network partition detected - witnesses disagree'',
                        QBelief := UnknownBelief,
                        QDisagreement :=
                          (case split of None \<Rightarrow> QDisagreement result
                           | Some sp \<Rightarrow> SDisagreement sp),
                        QEvidence :=
                          QEvidence result @ [''partition: witnesses split into groups'']\<rparr>,
                 ora)
              else
                let aggResult = Aggregate (registry ora) reports;
                    result = result\<lparr>QBelief := ABelief aggResult,
                                    QDisagreement := ADisagreement aggResult\<rparr> in
                if alive (ABelief aggResult) > 0 \<and> alive (ABelief aggResult) < MinAlive req
                then
                  if dead (ABelief aggResult) > 0 \<and> dead (ABelief aggResult) < MinDead req
                  then
                    (result\<lparr>Refused := True,
                            RefusalReason := ''insufficient confidence to meet requirements'',
                            QEvidence := QEvidence result @ [''confidence below threshold'']\<rparr>,
                     ora)
                  else (check_unknown result aggResult req (length reports), ora)
                else (check_unknown result aggResult req (length reports), ora))"

definition Query :: "Oracle \<Rightarrow> NodeID \<Rightarrow> QueryResult \<times> Oracle" where
  "Query ora target = QueryWithRequirement ora target DefaultRequirement"

subsection \<open>Fixtures of the repository's tests\<close>

text \<open>\<open>makeWitnesses\<close> of the finality tests: \<open>n\<close> reports of a dead belief.\<close>

definition makeWitnesses :: "nat \<Rightarrow> WitnessReport list" where
  "makeWitnesses n =
     map (\<lambda>i. \<lparr>Witness = NewNodeID (of_nat (i + 1)),
               Target = \<lparr>Base = 0, Generation = 0\<rparr>,
               RBelief = \<lparr>alive = 5 / 100, dead = 90 / 100, unknown = 5 / 100\<rparr>,
               RTrust = 0\<rparr>) [0..<n]"

definition highBelief :: Belief where
  "highBelief = \<lparr>alive = 2 / 100, dead = 95 / 100, unknown = 3 / 100\<rparr>"

text \<open>The four reports of the oracle's partition test.\<close>

definition splitReports :: "WitnessReport list" where
  "splitReports =
     [\<lparr>Witness = NewNodeID 10, Target = NewNodeID 99,
       RBelief = \<lparr>alive = 9 / 10, dead = 5 / 100, unknown = 5 / 100\<rparr>, RTrust = 0\<rparr>,
      \<lparr>Witness = NewNodeID 11, Target = NewNodeID 99,
       RBelief = \<lparr>alive = 9 / 10, dead = 5 / 100, unknown = 5 / 100\<rparr>, RTrust = 0\<rparr>,
      \<lparr>Witness = NewNodeID 12, Target = NewNodeID 99,
       RBelief = \<lparr>alive = 5 / 100, dead = 9 / 10, unknown = 5 / 100\<rparr>, RTrust = 0\<rparr>,
      \<lparr>Witness = NewNodeID 13, Target = NewNodeID 99,
       RBelief = \<lparr>alive = 5 / 100, dead = 9 / 10, unknown = 5 / 100\<rparr>, RTrust = 0\<rparr>]"

text \<open>An evidence set with a response and a timeout, and one with silence only.\<close>

definition conflictSet :: EvidenceSet where
  "conflictSet =
     Add (Add NewEvidenceSet (NewDirectResponse 1 50 (NewNodeID 1) (NewNodeID 2)))
         (NewTimeout 2 100 200 (NewNodeID 1) (NewNodeID 2))"


definition expired :: Evidence where
  "expired = NewCausalEvent 0 7 (NewNodeID 1) (NewNodeID 2)"

text \<open>
  A set with a half-life of 0, one with a half-life of 1, and one whose timeout and
  jitter records carry the weights 1.9 and -0.9.
\<close>

definition zeroHalfLifeSet :: EvidenceSet where
  "zeroHalfLifeSet = Add (WithHalfLife 0) expired"

definition unitHalfLifeSet :: EvidenceSet where
  "unitHalfLifeSet = Add (WithHalfLife 1) expired"


subsection \<open>Representable numbers and the exponent of \<open>pow\<close>\<close>

text \<open>
  The reals that a significand of 53 bits represents, and the exponent that
  \<open>EffectiveWeight\<close> passes to \<open>pow\<close> when the half-life is not 0: the rounded quotient
  of the two converted integers.
\<close>

definition is_f64 :: "real \<Rightarrow> bool" where
  "is_f64 x = (\<exists>m e :: int. \<bar>m\<bar> < 2 ^ 53 \<and> x = of_int m * pow2 e)"

definition pow_exponent :: "64 word \<Rightarrow> 64 word \<Rightarrow> real" where
  "pow_exponent age h = f64_round (f64_of_u64 age / f64_of_u64 h)"

subsection \<open>The decay of the specification\<close>

text \<open>
  The effective weight as the specification words it: the weight times 0.5 to the
  power \<open>age / halfLife\<close>, a real power.
\<close>

definition decay_spec :: "real \<Rightarrow> nat \<Rightarrow> nat \<Rightarrow> real" where
  "decay_spec w age h = w * (1 / 2) powr (real age / real h)"

subsection \<open>The aggregator's quantities in the specification's words\<close>

text \<open>
  The trust-weighted averages \<open>\<Sum> trust\<^sub>i \<cdot> belief\<^sub>i.X / \<Sum> trust\<^sub>i\<close> and the correlation score
  \<open>1 - min(2 \<cdot> meanAbsDiffFromFirst, 1)\<close>.
\<close>

definition total_trust :: "Registry \<Rightarrow> WitnessReport list \<Rightarrow> real" where
  "total_trust reg rs = (\<Sum>r\<leftarrow>rs. GetTrust reg (Witness r))"

definition avg_alive :: "Registry \<Rightarrow> WitnessReport list \<Rightarrow> real" where
  "avg_alive reg rs =
     (\<Sum>r\<leftarrow>rs. GetTrust reg (Witness r) * alive (RBelief r)) / total_trust reg rs"

definition avg_dead :: "Registry \<Rightarrow> WitnessReport list \<Rightarrow> real" where
  "avg_dead reg rs =
     (\<Sum>r\<leftarrow>rs. GetTrust reg (Witness r) * dead (RBelief r)) / total_trust reg rs"

definition meanAbsDiffFromFirst :: "WitnessReport list \<Rightarrow> real" where
  "meanAbsDiffFromFirst rs =
     (\<Sum>r\<leftarrow>tl rs. \<bar>alive (RBelief (hd rs)) - alive (RBelief r)\<bar>
                 + \<bar>dead (RBelief (hd rs)) - dead (RBelief r)\<bar>)
       / real (length rs - 1)"

definition corr :: "WitnessReport list \<Rightarrow> real" where
  "corr rs = 1 - min (2 * meanAbsDiffFromFirst rs) 1"

text \<open>An oracle that has received one report of the belief \<open>b\<close> from each witness of a list.\<close>

definition feed :: "Oracle \<Rightarrow> NodeID list \<Rightarrow> NodeID \<Rightarrow> Belief \<Rightarrow> Oracle" where
  "feed ora ws target b = foldl (\<lambda>ora w. ReceiveReport ora w target b) ora ws"

definition confidentAlive :: Belief where
  "confidentAlive = \<lparr>alive = 95 / 100, dead = 3 / 100, unknown = 2 / 100\<rparr>"

definition tenWitnesses :: "NodeID list" where
  "tenWitnesses = map NewNodeID [10, 11, 12, 13, 14, 15, 16, 17, 18, 19]"

text \<open>
  An oracle with two reports that lean alive, and a requirement that asks for an alive
  confidence of 0.7 and sets no minimum for dead.
\<close>

definition leaningOracle :: Oracle where
  "leaningOracle =
     ReceiveReport
       (ReceiveReport (New (NewNodeID 1)) (NewNodeID 10) (NewNodeID 99)
          \<lparr>alive = 6 / 10, dead = 1 / 10, unknown = 3 / 10\<rparr>)
       (NewNodeID 11) (NewNodeID 99) \<lparr>alive = 7 / 10, dead = 1 / 10, unknown = 2 / 10\<rparr>"

definition leaningReports :: "WitnessReport list" where
  "leaningReports =
     [\<lparr>Witness = NewNodeID 10, Target = NewNodeID 99,
       RBelief = \<lparr>alive = 6 / 10, dead = 1 / 10, unknown = 3 / 10\<rparr>, RTrust = 0\<rparr>,
      \<lparr>Witness = NewNodeID 11, Target = NewNodeID 99,
       RBelief = \<lparr>alive = 7 / 10, dead = 1 / 10, unknown = 2 / 10\<rparr>, RTrust = 0\<rparr>]"

definition aliveRequirement :: RequiredConfidence where
  "aliveRequirement = \<lparr>MinAlive = 7 / 10, MinDead = 0, MaxUnknown = 1\<rparr>"

text \<open>
  An oracle with two reports that give the dead state no mass at all, and a requirement
  of 0.7 on either side.
\<close>

definition aliveOnlyOracle :: Oracle where
  "aliveOnlyOracle =
     ReceiveReport
       (ReceiveReport (New (NewNodeID 1)) (NewNodeID 10) (NewNodeID 99)
          \<lparr>alive = 6 / 10, dead = 0, unknown = 4 / 10\<rparr>)
       (NewNodeID 11) (NewNodeID 99) \<lparr>alive = 7 / 10, dead = 0, unknown = 3 / 10\<rparr>"

definition aliveOnlyReports :: "WitnessReport list" where
  "aliveOnlyReports =
     [\<lparr>Witness = NewNodeID 10, Target = NewNodeID 99,
       RBelief = \<lparr>alive = 6 / 10, dead = 0, unknown = 4 / 10\<rparr>, RTrust = 0\<rparr>,
      \<lparr>Witness = NewNodeID 11, Target = NewNodeID 99,
       RBelief = \<lparr>alive = 7 / 10, dead = 0, unknown = 3 / 10\<rparr>, RTrust = 0\<rparr>]"

definition bothRequirement :: RequiredConfidence where
  "bothRequirement = \<lparr>MinAlive = 7 / 10, MinDead = 7 / 10, MaxUnknown = 1\<rparr>"

subsection \<open>Invariants\<close>

text \<open>Every record of the registry has a trust score between \<open>MinTrust\<close> and \<open>MaxTrust\<close>.\<close>

definition trust_bounded :: "Registry \<Rightarrow> bool" where
  "trust_bounded r =
     (\<forall>n w. witnesses r n = Some w \<longrightarrow> MinTrust \<le> Trust w \<and> Trust w \<le> MaxTrust)"

section \<open>Finality\<close>

lemma sum_dead_eq: "sum_dead rs s = s + (\<Sum>r\<leftarrow>rs. dead (RBelief r))"
  by (induction rs arbitrary: s) simp_all

lemma sum_sq_diff_eq:
  "sum_sq_diff rs avg v = v + (\<Sum>r\<leftarrow>rs. (dead (RBelief r) - avg)\<^sup>2)"
  by (induction rs arbitrary: v) (simp_all add: power2_eq_square)

lemma calculateDisagreement_variance:
  "2 \<le> length rs \<Longrightarrow> calculateDisagreement rs = dead_variance rs"
  by (simp add: calculateDisagreement_def dead_variance_def sum_dead_eq sum_sq_diff_eq Let_def)

lemma engine_step_keeps:
  "dead_map e k = Some r \<Longrightarrow> dead_map (engine_step e op) k = Some r"
  by (cases op) (auto simp: DeclareDeath_def)

lemma engine_run_keeps:
  "dead_map e k = Some r \<Longrightarrow> dead_map (engine_run e ops) k = Some r"
  unfolding engine_run_def
  by (induction ops arbitrary: e) (simp_all add: engine_step_keeps)

lemma makeWitnesses_5:
  "DeclareDeath NewEngine (NewNodeID 99) highBelief (makeWitnesses 5) True =
     (None, snd (DeclareDeath NewEngine (NewNodeID 99) highBelief (makeWitnesses 5) True))"
  by (simp add: DeclareDeath_def NewEngine_def makeWitnesses_def highBelief_def
      MinDeadConfidence_def MinWitnesses_def MaxDisagreement_def calculateDisagreement_def
      upt_rec [of _ "numeral _"] upt_rec [of 0])

text \<open>
  Claim C1. Once \<open>DeclareDeath\<close> has succeeded for a node, then after any further
  sequence of operations of the engine \<open>IsDead\<close> is true for it, every \<open>DeclareDeath\<close> for
  it returns \<open>ErrAlreadyDead\<close> and leaves the engine as it is, and its record is the one
  written first. No operation of the engine removes or overwrites an entry of the dead
  map.
\<close>

theorem finality_irreversible:
  assumes "DeclareDeath e0 n b rs f = (None, e1)"
  shows "IsDead (engine_run e1 ops) n
       \<and> DeclareDeath (engine_run e1 ops) n b' rs' f' = (Some ErrAlreadyDead, engine_run e1 ops)
       \<and> dead_map (engine_run e1 ops) n = dead_map e1 n
       \<and> (\<forall>e k r op. dead_map e k = Some r \<longrightarrow> dead_map (engine_step e op) k = Some r)"
proof -
  from assms obtain r where r: "dead_map e1 n = Some r"
    by (auto simp: DeclareDeath_def split: if_splits)
  then have "dead_map (engine_run e1 ops) n = Some r"
    by (rule engine_run_keeps)
  with r show ?thesis
    by (simp add: IsDead_def DeclareDeath_def engine_step_keeps)
qed

theorem finality_irreversible_witness:
  "DeclareDeath NewEngine (NewNodeID 99) highBelief (makeWitnesses 5) True =
     (None, snd (DeclareDeath NewEngine (NewNodeID 99) highBelief (makeWitnesses 5) True))
   \<and> IsDead (engine_run (snd (DeclareDeath NewEngine (NewNodeID 99) highBelief (makeWitnesses 5) True))
        [OpAttemptResurrection (NewNodeID 99),
         OpDeclareDeath (NewNodeID 99) UnknownBelief [] True,
         OpDeclareDeath (NewNodeID 7) highBelief (makeWitnesses 5) True]) (NewNodeID 99)
   \<and> fst (DeclareDeath (engine_run (snd (DeclareDeath NewEngine (NewNodeID 99) highBelief (makeWitnesses 5) True))
        [OpAttemptResurrection (NewNodeID 99),
         OpDeclareDeath (NewNodeID 99) UnknownBelief [] True,
         OpDeclareDeath (NewNodeID 7) highBelief (makeWitnesses 5) True])
        (NewNodeID 99) highBelief (makeWitnesses 5) True) = Some ErrAlreadyDead"
  using finality_irreversible [OF makeWitnesses_5,
      of "[OpAttemptResurrection (NewNodeID 99),
           OpDeclareDeath (NewNodeID 99) UnknownBelief [] True,
           OpDeclareDeath (NewNodeID 7) highBelief (makeWitnesses 5) True]"
         highBelief "makeWitnesses 5" True]
    makeWitnesses_5
  by simp

text \<open>
  Claim C2. \<open>DeclareDeath\<close> succeeds, and then writes the death record of the node,
  exactly when the node has no record, the dead mass of the belief is at least 0.85,
  there are at least 3 reports, the flag \<open>hasNonTimeoutEvidence\<close> is set and the variance
  of the reports' dead masses is at most 0.2. Otherwise the engine is unchanged and the
  error is \<open>ErrAlreadyDead\<close> for a node with a record, \<open>ErrSilenceOnly\<close> when only the
  flag is in the way of the first four checks, and \<open>ErrInsufficientEvidence\<close> in the
  other cases.
\<close>

theorem DeclareDeath_preconditions:
  "(fst (DeclareDeath e n b rs f) = None \<longleftrightarrow>
      dead_map e n = None \<and> dead b \<ge> 85 / 100 \<and> length rs \<ge> 3 \<and> f
      \<and> dead_variance rs \<le> 2 / 10)
   \<and> (fst (DeclareDeath e n b rs f) = None \<longrightarrow>
        snd (DeclareDeath e n b rs f) = e\<lparr>dead_map := (dead_map e)(n \<mapsto>
           \<lparr>DNodeID = n, FinalBelief = b, Witnesses = map Witness rs,
            Reason = ''overwhelming evidence from multiple witnesses''\<rparr>)\<rparr>)
   \<and> (fst (DeclareDeath e n b rs f) \<noteq> None \<longrightarrow>
        snd (DeclareDeath e n b rs f) = e
        \<and> fst (DeclareDeath e n b rs f) =
            Some (if dead_map e n \<noteq> None then ErrAlreadyDead
                  else if dead b \<ge> 85 / 100 \<and> length rs \<ge> 3 \<and> \<not> f then ErrSilenceOnly
                  else ErrInsufficientEvidence))"
proof (cases "length rs < 3")
  case True
  then show ?thesis
    by (simp add: DeclareDeath_def MinDeadConfidence_def MinWitnesses_def MaxDisagreement_def)
next
  case False
  then have "calculateDisagreement rs = dead_variance rs"
    by (simp add: calculateDisagreement_variance)
  with False show ?thesis
    by (auto simp add: DeclareDeath_def MinDeadConfidence_def MinWitnesses_def
        MaxDisagreement_def)
qed

theorem DeclareDeath_preconditions_witness:
  "fst (DeclareDeath NewEngine (NewNodeID 99) highBelief (makeWitnesses 5) True) = None
   \<and> dead_map (snd (DeclareDeath NewEngine (NewNodeID 99) highBelief (makeWitnesses 5) True))
        (NewNodeID 99) =
       Some \<lparr>DNodeID = NewNodeID 99, FinalBelief = highBelief,
             Witnesses = map Witness (makeWitnesses 5),
             Reason = ''overwhelming evidence from multiple witnesses''\<rparr>
   \<and> DeclareDeath NewEngine (NewNodeID 99) highBelief (makeWitnesses 5) False =
       (Some ErrSilenceOnly, NewEngine)
   \<and> dead_variance (makeWitnesses 5) \<le> 2 / 10"
proof -
  have ok: "fst (DeclareDeath NewEngine (NewNodeID 99) highBelief (makeWitnesses 5) True) = None"
    using makeWitnesses_5 by (metis fst_conv)
  have len: "length (makeWitnesses 5) = 5" "dead highBelief = 95 / 100"
    "dead_map NewEngine (NewNodeID 99) = None"
    by (simp_all add: makeWitnesses_def highBelief_def NewEngine_def)
  show ?thesis
    using DeclareDeath_preconditions
            [of NewEngine "NewNodeID 99" highBelief "makeWitnesses 5" True]
          DeclareDeath_preconditions
            [of NewEngine "NewNodeID 99" highBelief "makeWitnesses 5" False]
          ok len
    by (auto simp add: prod_eq_iff)
qed

section \<open>Binary64 rounding\<close>

lemma round_half_even_int [simp]: "round_half_even (of_int n) = n"
  by (simp add: round_half_even_def)

lemma round_half_even_le: "y \<le> of_int N \<Longrightarrow> round_half_even y \<le> N"
  unfolding round_half_even_def Let_def
  by (auto simp: floor_le_iff)

lemma round_half_even_ge: "of_int N \<le> y \<Longrightarrow> N \<le> round_half_even y"
  unfolding round_half_even_def Let_def
  by (auto simp: le_floor_iff) linarith+

lemma pow2_pos [simp]: "0 < pow2 e"
  by (simp add: pow2_def)

lemma pow2_add: "pow2 (a + b) = pow2 a * pow2 b"
  by (simp add: pow2_def powr_add)

lemma pow2_0 [simp]: "pow2 0 = 1"
  by (simp add: pow2_def)

lemma pow2_nat: "0 \<le> j \<Longrightarrow> pow2 j = of_int (2 ^ nat j)"
  by (simp add: pow2_def powr_real_of_int)

lemma pow2_mono: "a \<le> b \<Longrightarrow> pow2 a \<le> pow2 b"
  by (simp add: pow2_def)

lemma pow2_less_iff: "pow2 a < pow2 b \<longleftrightarrow> a < b"
  by (simp add: pow2_def)

lemma pow2_le_iff: "pow2 a \<le> pow2 b \<longleftrightarrow> a \<le> b"
  by (simp add: pow2_def)

lemma floor_log2:
  assumes "0 < x"
  shows "pow2 \<lfloor>log 2 x\<rfloor> \<le> x" and "x < pow2 (\<lfloor>log 2 x\<rfloor> + 1)"
proof -
  have "of_int \<lfloor>log 2 x\<rfloor> \<le> log 2 x" by simp
  then have "2 powr of_int \<lfloor>log 2 x\<rfloor> \<le> 2 powr log 2 x" by (simp only: powr_le_cancel_iff)
  then show "pow2 \<lfloor>log 2 x\<rfloor> \<le> x" using assms by (simp add: pow2_def)
  have "log 2 x < of_int (\<lfloor>log 2 x\<rfloor> + 1)" by linarith
  then have "2 powr log 2 x < 2 powr of_int (\<lfloor>log 2 x\<rfloor> + 1)" by (simp only: powr_less_cancel_iff)
  then show "x < pow2 (\<lfloor>log 2 x\<rfloor> + 1)" using assms by (simp add: pow2_def)
qed

lemma f64_round_0 [simp]: "f64_round 0 = 0"
  by (simp add: f64_round_def)

lemma f64_round_lower:
  assumes "0 < z"
  shows "pow2 \<lfloor>log 2 z\<rfloor> \<le> f64_round z"
proof -
  let ?L = "\<lfloor>log 2 z\<rfloor>"
  let ?u = "pow2 (?L - 52)"
  have split: "pow2 ?L = pow2 52 * ?u"
    using pow2_add [of 52 "?L - 52"] by simp
  have "pow2 52 * ?u \<le> z"
    using floor_log2(1) [OF assms] split by simp
  then have "pow2 52 \<le> z / ?u"
    by (simp add: pos_le_divide_eq)
  then have "of_int (2 ^ 52) \<le> z / ?u"
    by (simp add: pow2_nat)
  then have "2 ^ 52 \<le> round_half_even (z / ?u)"
    by (rule round_half_even_ge)
  then have "(of_int (2 ^ 52) :: real) \<le> of_int (round_half_even (z / ?u))"
    by (simp only: of_int_le_iff)
  then have A: "of_int (2 ^ 52) * ?u \<le> of_int (round_half_even (z / ?u)) * ?u"
    by (rule mult_right_mono) (simp add: less_imp_le)
  have B: "of_int (2 ^ 52) * ?u = pow2 ?L"
    by (simp add: split pow2_nat)
  have C: "f64_round z = of_int (round_half_even (z / ?u)) * ?u"
    using assms by (simp add: f64_round_def Let_def)
  show ?thesis unfolding C B [symmetric] by (rule A)
qed

lemma f64_round_pos: "0 < z \<Longrightarrow> 0 < f64_round z"
  using f64_round_lower [of z] pow2_pos [of "\<lfloor>log 2 z\<rfloor>"] by linarith

lemma f64_round_nonneg: "0 \<le> z \<Longrightarrow> 0 \<le> f64_round z"
  using f64_round_pos [of z] by (cases "z = 0") auto

lemma f64_round_ge_1: 
  assumes z: "1 \<le> z" shows "1 \<le> f64_round z"
proof -
  have "0 \<le> log 2 z" using z by simp
  then have "0 \<le> \<lfloor>log 2 z\<rfloor>" by simp
  then have "pow2 0 \<le> pow2 \<lfloor>log 2 z\<rfloor>" by (rule pow2_mono)
  with f64_round_lower [of z] z show ?thesis by simp
qed

lemma f64_round_unfold:
  "0 < z \<Longrightarrow>
     f64_round z = of_int (round_half_even (z / pow2 (\<lfloor>log 2 z\<rfloor> - 52)))
                     * pow2 (\<lfloor>log 2 z\<rfloor> - 52)"
  by (simp add: f64_round_def Let_def)

lemma is_f64I: "\<bar>m\<bar> < 2 ^ 53 \<Longrightarrow> x = of_int m * pow2 e \<Longrightarrow> is_f64 x"
  unfolding is_f64_def by blast

lemma f64_round_exact:
  assumes f: "is_f64 x" and x: "0 \<le> x"
  shows "f64_round x = x"
proof (cases "x = 0")
  case True
  then show ?thesis by simp
next
  case False
  with x have pos: "0 < x" by simp
  from f obtain m k :: int where m: "\<bar>m\<bar> < 2 ^ 53" and xe: "x = of_int m * pow2 k"
    unfolding is_f64_def by blast
  define L where "L = \<lfloor>log 2 x\<rfloor>"
  define u where "u = pow2 (L - 52)"
  have u: "0 < u" by (simp add: u_def)
  have r: "f64_round x = of_int (round_half_even (x / u)) * u"
    unfolding u_def L_def by (rule f64_round_unfold [OF pos])
  have lo: "pow2 L \<le> x" unfolding L_def by (rule floor_log2(1) [OF pos])
  have "m < 2 ^ 53" using m by simp
  then have "of_int m < (of_int (2 ^ 53) :: real)" by (simp only: of_int_less_iff)
  then have "of_int m * pow2 k < of_int (2 ^ 53) * pow2 k"
    by (rule mult_strict_right_mono) simp
  also have "\<dots> = pow2 (53 + k)" by (simp add: pow2_add pow2_nat)
  finally have "x < pow2 (53 + k)" using xe by simp
  with lo have "pow2 L < pow2 (53 + k)" by linarith
  then have "L < 53 + k" by (simp only: pow2_less_iff)
  then have j: "0 \<le> k - (L - 52)" by simp
  have pk: "pow2 k = pow2 (k - (L - 52)) * u"
    unfolding u_def using pow2_add [of "k - (L - 52)" "L - 52"] by simp
  have "x / u = of_int m * pow2 (k - (L - 52)) * u / u"
    using xe pk by simp
  also have "\<dots> = of_int m * pow2 (k - (L - 52))" using u by simp
  also have "\<dots> = of_int (m * 2 ^ nat (k - (L - 52)))"
    by (simp add: pow2_nat [OF j])
  finally have q: "x / u = of_int (m * 2 ^ nat (k - (L - 52)))" .
  have "f64_round x = of_int (m * 2 ^ nat (k - (L - 52))) * u"
    unfolding r q round_half_even_int ..
  also have "\<dots> = x / u * u" unfolding q ..
  also have "\<dots> = x" using u by simp
  finally show ?thesis .
qed

lemma f64_round_is_f64:
  assumes "0 \<le> z"
  shows "is_f64 (f64_round z)"
proof (cases "z = 0")
  case True
  then show ?thesis by (simp add: is_f64_def) (rule exI [of _ 0], simp)
next
  case False
  with assms have pos: "0 < z" by simp
  let ?L = "\<lfloor>log 2 z\<rfloor>"
  let ?u = "pow2 (?L - 52)"
  let ?n = "round_half_even (z / ?u)"
  have "pow2 (53 + (?L - 52)) = of_int (2 ^ 53) * ?u"
    unfolding pow2_add by (simp add: pow2_nat)
  moreover have "53 + (?L - 52) = ?L + 1" by simp
  ultimately have up: "pow2 (?L + 1) = of_int (2 ^ 53) * ?u" by simp
  have "z < of_int (2 ^ 53) * ?u"
    using floor_log2(2) [OF pos] up by simp
  then have "z / ?u < of_int (2 ^ 53)"
    by (simp add: pos_divide_less_eq)
  then have "z / ?u \<le> of_int (2 ^ 53)" by simp
  then have n_le: "?n \<le> 2 ^ 53" by (rule round_half_even_le)
  have lo: "pow2 ?L = of_int (2 ^ 52) * ?u"
    using pow2_add [of 52 "?L - 52"] by (simp add: pow2_nat)
  have "of_int (2 ^ 52) * ?u \<le> z"
    using floor_log2(1) [OF pos] lo by simp
  then have "of_int (2 ^ 52) \<le> z / ?u"
    by (simp add: pos_le_divide_eq)
  then have n_ge: "2 ^ 52 \<le> ?n" by (rule round_half_even_ge)
  show ?thesis
  proof (cases "?n < 2 ^ 53")
    case True
    with n_ge have "\<bar>?n\<bar> < 2 ^ 53" by simp
    then show ?thesis
      by (rule is_f64I) (rule f64_round_unfold [OF pos])
  next
    case False
    with n_le have n: "?n = 2 ^ 53" by simp
    have "f64_round z = of_int (2 ^ 53) * ?u"
      unfolding f64_round_unfold [OF pos] n ..
    also have "\<dots> = of_int (2 ^ 52) * pow2 (?L - 51)"
      using pow2_add [of 1 "?L - 52"] by (simp add: pow2_nat)
    finally show ?thesis
      by (intro is_f64I [of "2 ^ 52"]) simp_all
  qed
qed

lemma f64_round_le_2_53:
  assumes z: "0 \<le> z" "z \<le> 2 ^ 53"
  shows "f64_round z \<le> 2 ^ 53"
proof (cases "z = 0")
  case True
  then show ?thesis by simp
next
  case False
  with z have pos: "0 < z" by simp
  let ?L = "\<lfloor>log 2 z\<rfloor>"
  let ?u = "pow2 (?L - 52)"
  have p53: "pow2 53 = 2 ^ 53" by (simp add: pow2_nat)
  have "pow2 ?L \<le> pow2 53" using floor_log2(1) [OF pos] z(2) p53 by linarith
  then have "?L \<le> 53" by (simp only: pow2_le_iff)
  then have j: "0 \<le> 53 - (?L - 52)" by simp
  have split: "pow2 53 = pow2 (53 - (?L - 52)) * ?u"
    using pow2_add [of "53 - (?L - 52)" "?L - 52"] by simp
  have "z \<le> pow2 (53 - (?L - 52)) * ?u" using z(2) p53 split by simp
  then have "z / ?u \<le> pow2 (53 - (?L - 52))" by (simp add: pos_divide_le_eq)
  then have "z / ?u \<le> of_int (2 ^ nat (53 - (?L - 52)))" by (simp only: pow2_nat [OF j])
  then have "round_half_even (z / ?u) \<le> 2 ^ nat (53 - (?L - 52))" by (rule round_half_even_le)
  then have "(of_int (round_half_even (z / ?u)) :: real) \<le> of_int (2 ^ nat (53 - (?L - 52)))"
    by (simp only: of_int_le_iff)
  then have "of_int (round_half_even (z / ?u)) * ?u \<le> of_int (2 ^ nat (53 - (?L - 52))) * ?u"
    by (rule mult_right_mono) (simp add: less_imp_le)
  also have "\<dots> = pow2 53" unfolding split pow2_nat [OF j] ..
  finally show ?thesis unfolding f64_round_unfold [OF pos] p53 .
qed

lemma is_f64_pred:
  assumes f: "is_f64 x" and x: "1 \<le> x" "x \<le> 2 ^ 53"
  shows "is_f64 (x - 1)"
proof -
  from f obtain m k :: int where m: "\<bar>m\<bar> < 2 ^ 53" and xe: "x = of_int m * pow2 k"
    unfolding is_f64_def by blast
  have mpos: "0 < m"
  proof (rule ccontr)
    assume "\<not> 0 < m"
    then have "of_int m \<le> (0::real)" by simp
    then have "of_int m * pow2 k \<le> 0" by (simp add: mult_le_0_iff less_imp_le)
    with x(1) xe show False by simp
  qed
  show ?thesis
  proof (cases "0 \<le> k")
    case True
    have xi: "x = of_int (m * 2 ^ nat k)" unfolding xe by (simp add: pow2_nat [OF True])
    then have "of_int (m * 2 ^ nat k) \<le> (of_int (2 ^ 53) :: real)" using x(2) by simp
    then have "m * 2 ^ nat k \<le> 2 ^ 53" by (simp only: of_int_le_iff)
    moreover have "(1::real) \<le> of_int (m * 2 ^ nat k)" using x(1) xi by simp
    then have "1 \<le> m * 2 ^ nat k" by linarith
    ultimately have "\<bar>m * 2 ^ nat k - 1\<bar> < 2 ^ 53" by simp
    then show ?thesis
      by (rule is_f64I [where e = 0]) (simp add: xi)
  next
    case False
    then have nk: "0 \<le> - k" by simp
    have one: "1 = of_int (2 ^ nat (- k)) * pow2 k"
      using pow2_add [of "- k" k] by (simp add: pow2_nat [OF nk])
    have "of_int (2 ^ nat (- k)) * pow2 k \<le> of_int m * pow2 k"
      using x(1) xe one by simp
    then have "(of_int (2 ^ nat (- k)) :: real) \<le> of_int m"
      by (simp only: mult_le_cancel_right) (simp add: not_less [symmetric])
    then have le: "2 ^ nat (- k) \<le> m" by (simp only: of_int_le_iff)
    have "(0::int) < 2 ^ nat (- k)" by simp
    then have "\<bar>m - 2 ^ nat (- k)\<bar> < 2 ^ 53" using le m by linarith
    moreover have "x - 1 = of_int (m - 2 ^ nat (- k)) * pow2 k"
    proof -
      have "x - 1 = of_int m * pow2 k - of_int (2 ^ nat (- k)) * pow2 k"
        using xe one by simp
      also have "\<dots> = (of_int m - of_int (2 ^ nat (- k))) * pow2 k"
        by (rule left_diff_distrib [symmetric])
      also have "\<dots> = of_int (m - 2 ^ nat (- k)) * pow2 k" by simp
      finally show ?thesis .
    qed
    ultimately show ?thesis by (rule is_f64I)
  qed
qed

lemma is_f64_nat: "n < 2 ^ 53 \<Longrightarrow> is_f64 (real n)"
  by (rule is_f64I [of "int n" _ 0]) simp_all


section \<open>Evidence factories\<close>

text \<open>
  Claim C10. \<open>NewTimeout\<close> has no failing branch: for all arguments it yields a record
  whose weight is 0.1, 0.2 or 0.3. With \<open>expectedMS = 0\<close> the ratio is \<open>+Inf\<close> for a
  positive wait, which takes the first branch (0.3), and \<open>NaN\<close> for a zero wait, which
  fails both comparisons (0.1).
\<close>

theorem NewTimeout_weight:
  "Weight (NewTimeout ts expectedMS waitedMS source target) \<in> {1 / 10, 2 / 10, 3 / 10}
   \<and> Weight (NewTimeout ts 0 waitedMS source target) = (if waitedMS = 0 then 1 / 10 else 3 / 10)"
proof -
  have pos: "0 < f64_of_u64 waitedMS" if "waitedMS \<noteq> 0"
  proof -
    have "0 < real (unat waitedMS)" using that by (simp add: unat_gt_0 del: of_nat_unat)
    then show ?thesis unfolding f64_of_u64_def by (rule f64_round_pos)
  qed
  have zero: "f64_of_u64 0 = 0" by (simp add: f64_of_u64_def)
  have 1: "Weight (NewTimeout ts expectedMS waitedMS source target) \<in> {1 / 10, 2 / 10, 3 / 10}"
    by (simp add: NewTimeout_def Let_def)
  have 2: "Weight (NewTimeout ts 0 waitedMS source target)
             = (if waitedMS = 0 then 1 / 10 else 3 / 10)"
    using pos by (auto simp add: NewTimeout_def f64_div_def Let_def zero)
  show ?thesis using 1 2 by simp
qed

theorem NewTimeout_weight_witness:
  "Weight (NewTimeout 5 0 0 (NewNodeID 1) (NewNodeID 2)) = 1 / 10
   \<and> Weight (NewTimeout 5 0 1000 (NewNodeID 1) (NewNodeID 2)) = 3 / 10"
  using NewTimeout_weight [of 5 0 0 "NewNodeID 1" "NewNodeID 2"]
        NewTimeout_weight [of 5 0 1000 "NewNodeID 1" "NewNodeID 2"]
  by simp

section \<open>Witness trust\<close>

lemma trust_bounded_step: "trust_bounded r \<Longrightarrow> trust_bounded (registry_step r op)"
  by (cases op)
     (force simp: trust_bounded_def Register_def RecordCorrect_def RecordWrong_def
        RecordReport_def getOrCreate_def fresh_record_def MinTrust_def MaxTrust_def
        DefaultTrust_def RecoveryRate_def DecayRate_def Let_def
        split: option.splits if_splits)+

lemma trust_bounded_run: "trust_bounded r \<Longrightarrow> trust_bounded (registry_run r ops)"
  unfolding registry_run_def
  by (induction ops arbitrary: r) (simp_all add: trust_bounded_step)

lemma trust_bounded_New: "trust_bounded NewRegistry"
  by (simp add: trust_bounded_def NewRegistry_def)

lemma trust_bounded_GetTrust:
  "trust_bounded r \<Longrightarrow> 1 / 10 \<le> GetTrust r n \<and> GetTrust r n \<le> 1"
  by (auto simp: trust_bounded_def GetTrust_def MinTrust_def MaxTrust_def DefaultTrust_def
        split: option.splits)

text \<open>
  Claim C9. After any sequence of \<open>Register\<close>, \<open>RecordCorrect\<close>, \<open>RecordWrong\<close> (and
  \<open>RecordReport\<close>) on a new registry, \<open>GetTrust\<close> of any witness is between 0.1 and 1.0.
  Registration gives a new witness 0.8 and is idempotent; \<open>RecordCorrect\<close> adds 0.05 and
  clamps at 1.0; \<open>RecordWrong\<close> subtracts 0.10 and clamps at 0.1.
\<close>

theorem trust_stays_in_bounds:
  "1 / 10 \<le> GetTrust (registry_run NewRegistry ops) n
   \<and> GetTrust (registry_run NewRegistry ops) n \<le> 1
   \<and> witnesses (Register r n) n =
       Some (case witnesses r n of None \<Rightarrow> fresh_record n | Some w \<Rightarrow> w)
   \<and> Trust (fresh_record n) = 8 / 10
   \<and> Register (Register r n) n = Register r n
   \<and> GetTrust (RecordCorrect r n) n = min 1 (GetTrust r n + 5 / 100)
   \<and> GetTrust (RecordWrong r n) n = max (1 / 10) (GetTrust r n - 10 / 100)"
  using trust_bounded_GetTrust [OF trust_bounded_run [OF trust_bounded_New], of ops n]
  by (auto simp: GetTrust_def Register_def RecordCorrect_def RecordWrong_def NewRegistry_def
        getOrCreate_def fresh_record_def MinTrust_def MaxTrust_def DefaultTrust_def
        RecoveryRate_def DecayRate_def Let_def split: option.splits)

theorem trust_stays_in_bounds_witness:
  "GetTrust (registry_run NewRegistry
      [OpRegister (NewNodeID 1), OpRecordWrong (NewNodeID 1), OpRecordWrong (NewNodeID 1)])
      (NewNodeID 1) \<le> 1
   \<and> GetTrust (RecordWrong (Register NewRegistry (NewNodeID 1)) (NewNodeID 1)) (NewNodeID 1)
       = 7 / 10"
  using trust_stays_in_bounds
          [of "[OpRegister (NewNodeID 1), OpRecordWrong (NewNodeID 1), OpRecordWrong (NewNodeID 1)]"
              "NewNodeID 1" "Register NewRegistry (NewNodeID 1)"]
        trust_stays_in_bounds [of "[]" "NewNodeID 1" NewRegistry]
  by (simp add: GetTrust_def NewRegistry_def DefaultTrust_def)

section \<open>Partition detection\<close>

lemma count_votes_eq:
  "count_votes rs (a, d, u) =
     (a + votes StateAlive rs, d + votes StateDead rs, u + votes StateUnknown rs)"
  by (induction rs arbitrary: a d u) (auto simp: votes_def split: BeliefState.splits)

lemma fill_groups_eq:
  "fill_groups rs t (ag, dg) =
     (ag\<lparr>GWitnesses :=
           GWitnesses ag @ map Witness (filter (\<lambda>r. Dominant (RBelief r) = StateAlive) rs),
         GBeliefs :=
           (case filter (\<lambda>r. Dominant (RBelief r) = StateAlive) rs of
              [] \<Rightarrow> GBeliefs ag
            | xs \<Rightarrow> (GBeliefs ag)(t \<mapsto> RBelief (last xs)))\<rparr>,
      dg\<lparr>GWitnesses :=
           GWitnesses dg @ map Witness (filter (\<lambda>r. Dominant (RBelief r) = StateDead) rs),
         GBeliefs :=
           (case filter (\<lambda>r. Dominant (RBelief r) = StateDead) rs of
              [] \<Rightarrow> GBeliefs dg
            | xs \<Rightarrow> (GBeliefs dg)(t \<mapsto> RBelief (last xs)))\<rparr>)"
  by (induction rs arbitrary: ag dg) (auto split: list.splits)

lemma Analyze_general:
  "fst (Analyze d rs t) =
     (if length rs < 2 then (NoPartition, None)
      else if 0 < votes StateAlive rs \<and> 0 < votes StateDead rs then
        (if real (min (votes StateAlive rs) (votes StateDead rs)) / real (length rs)
              > disagreementThreshold d
         then (ConfirmedPartition,
               Some \<lparr>Groups =
                       [\<lparr>GWitnesses =
                           map Witness (filter (\<lambda>r. Dominant (RBelief r) = StateAlive) rs),
                         GBeliefs =
                           [t \<mapsto> RBelief (last (filter (\<lambda>r. Dominant (RBelief r) = StateAlive) rs))]\<rparr>,
                        \<lparr>GWitnesses =
                           map Witness (filter (\<lambda>r. Dominant (RBelief r) = StateDead) rs),
                         GBeliefs =
                           [t \<mapsto> RBelief (last (filter (\<lambda>r. Dominant (RBelief r) = StateDead) rs))]\<rparr>],
                     SDisagreement =
                       real (min (votes StateAlive rs) (votes StateDead rs)) / real (length rs),
                     Ambiguous = [t]\<rparr>)
         else (SuspectedPartition, None))
      else if real (votes StateUnknown rs) / real (length rs) > 1 / 2
        then (SuspectedPartition, None)
      else (NoPartition, None))"
proof -
  have m: "min_go a b = min a b" for a b
    by (simp add: min_go_def min_def)
  show ?thesis
    by (auto simp add: Analyze_def count_votes_eq fill_groups_eq m Let_def
          votes_def split: list.splits)
qed

lemma Analyze_detector:
  "state (snd (Analyze d rs t)) = fst (fst (Analyze d rs t))
   \<and> disagreementThreshold (snd (Analyze d rs t)) = disagreementThreshold d"
  by (simp add: Analyze_def Let_def split: prod.splits)

text \<open>
  Claim C7. For a detector with the threshold 0.4 that \<open>NewDetector\<close> sets (and \<open>Analyze\<close>
  keeps), \<open>Analyze\<close> returns: \<open>NoPartition\<close> for fewer than 2 reports; otherwise, with
  the reports counted by dominant state, when there are alive and dead votes,
  \<open>ConfirmedPartition\<close> exactly when \<open>min(alive, dead) / total > 0.4\<close>, together with a
  split of two groups (the alive-side and the dead-side witnesses, in order, each with
  its last belief about the target) that lists the target as ambiguous, and
  \<open>SuspectedPartition\<close> when not; else \<open>SuspectedPartition\<close> when more than half of the
  votes are unknown; else \<open>NoPartition\<close>. The detector stores the state it returns.
\<close>

theorem Analyze_classification:
  assumes "disagreementThreshold d = 4 / 10"
  shows "fst (Analyze d rs t) =
     (if length rs < 2 then (NoPartition, None)
      else if 0 < votes StateAlive rs \<and> 0 < votes StateDead rs then
        (if real (min (votes StateAlive rs) (votes StateDead rs)) / real (length rs) > 4 / 10
         then (ConfirmedPartition,
               Some \<lparr>Groups =
                       [\<lparr>GWitnesses =
                           map Witness (filter (\<lambda>r. Dominant (RBelief r) = StateAlive) rs),
                         GBeliefs =
                           [t \<mapsto> RBelief (last (filter (\<lambda>r. Dominant (RBelief r) = StateAlive) rs))]\<rparr>,
                        \<lparr>GWitnesses =
                           map Witness (filter (\<lambda>r. Dominant (RBelief r) = StateDead) rs),
                         GBeliefs =
                           [t \<mapsto> RBelief (last (filter (\<lambda>r. Dominant (RBelief r) = StateDead) rs))]\<rparr>],
                     SDisagreement =
                       real (min (votes StateAlive rs) (votes StateDead rs)) / real (length rs),
                     Ambiguous = [t]\<rparr>)
         else (SuspectedPartition, None))
      else if real (votes StateUnknown rs) / real (length rs) > 1 / 2
        then (SuspectedPartition, None)
      else (NoPartition, None))
    \<and> state (snd (Analyze d rs t)) = fst (fst (Analyze d rs t))
    \<and> disagreementThreshold (snd (Analyze d rs t)) = 4 / 10"
  unfolding assms [symmetric]
  using Analyze_general [of d rs t] Analyze_detector [of d rs t]
  by (rule conjI)

theorem Analyze_classification_witness:
  "disagreementThreshold NewDetector = 4 / 10
   \<and> fst (fst (Analyze NewDetector splitReports (NewNodeID 99))) = ConfirmedPartition
   \<and> fst (fst (Analyze NewDetector (take 3 splitReports) (NewNodeID 99))) = SuspectedPartition
   \<and> fst (fst (Analyze NewDetector (take 2 splitReports) (NewNodeID 99))) = NoPartition"
proof -
  have h: "disagreementThreshold NewDetector = 4 / 10"
    by (simp add: NewDetector_def)
  have v: "votes StateAlive splitReports = 2" "votes StateDead splitReports = 2"
      "votes StateAlive (take 3 splitReports) = 2" "votes StateDead (take 3 splitReports) = 1"
      "votes StateAlive (take 2 splitReports) = 2" "votes StateDead (take 2 splitReports) = 0"
      "votes StateUnknown (take 2 splitReports) = 0"
      "length splitReports = 4"
    by (simp_all add: votes_def splitReports_def Dominant_def DominantMargin_def)
  show ?thesis
    using Analyze_classification [OF h, of splitReports "NewNodeID 99"]
          Analyze_classification [OF h, of "take 3 splitReports" "NewNodeID 99"]
          Analyze_classification [OF h, of "take 2 splitReports" "NewNodeID 99"] h v
    by simp
qed

section \<open>Age decay\<close>

lemma floor_log2_eq:
  assumes "0 < z" and "pow2 n \<le> z" and "z < pow2 (n + 1)"
  shows "\<lfloor>log 2 z\<rfloor> = n"
proof (rule floor_unique)
  show "of_int n \<le> log 2 z"
    using assms(1,2) by (simp add: le_log_iff pow2_def)
  have "log 2 z < of_int (n + 1)"
    using assms(1,3) by (simp add: log_less_iff pow2_def)
  then show "log 2 z < of_int n + 1" by simp
qed

text \<open>
  The loop of \<open>pow\<close> ends for a representable exponent up to \<open>2^53\<close>, where every
  decrement is exact; it does not end for an exponent that the decrement leaves
  unchanged; and whatever it returns for a base between 0 and 1 is not negative.
\<close>

lemma pow_loop_exact:
  assumes "is_f64 x" and "0 \<le> x" and "x \<le> 2 ^ 53"
  shows "pow_loop b r (Fin x) = Some (r * b ^ nat \<lfloor>x\<rfloor>, Fin (if x < 1 then x else frac x))"
  using assms
proof (induction "nat \<lfloor>x\<rfloor>" arbitrary: x r)
  case 0
  then have "x < 1" by linarith
  then show ?case using 0 by (subst pow_loop.simps) simp
next
  case (Suc n)
  then have x1: "1 \<le> x" by linarith
  have n: "n = nat \<lfloor>x - 1\<rfloor>" using Suc(2) by linarith
  have fr: "(if x - 1 < 1 then x - 1 else frac (x - 1)) = frac x"
  proof (cases "x - 1 < 1")
    case True
    then have "\<lfloor>x\<rfloor> = 1" using x1 by linarith
    then show ?thesis using True by (simp add: frac_def)
  next
    case False
    then show ?thesis by (simp add: frac_def)
  qed
  have rep: "is_f64 (x - 1)" using Suc.prems(1) x1 Suc.prems(3) by (rule is_f64_pred)
  have dec: "f64_round (x - 1) = x - 1"
    using rep x1 by (intro f64_round_exact) simp_all
  have "pow_loop b r (Fin x) = pow_loop b (r * b) (Fin (x - 1))"
    using x1 by (subst pow_loop.simps) (simp add: dec)
  also have "\<dots> = Some (r * b * b ^ n, Fin (frac x))"
    using Suc(1) [OF n rep, of "r * b"] n fr x1 Suc.prems(3) by simp
  finally show ?case using x1 Suc(2) [symmetric] by simp
qed

lemma pow_loop_stuck:
  assumes ge: "f64_ge e 1" and same: "f64_dec e = e"
  shows "pow_loop b r e = None"
proof -
  have ne: "x \<noteq> e" if "pow_loop b r x = Some y" for b r x y
  proof (rule pow_loop.raw_induct [where P = "\<lambda>b r x y. x \<noteq> e", OF _ that])
    fix f :: "real \<Rightarrow> real \<Rightarrow> f64 \<Rightarrow> (real \<times> f64) option" and base result expo y
    assume IH: "\<And>b r x y. f b r x = Some y \<Longrightarrow> x \<noteq> e"
      and body: "(if f64_ge expo 1 then f base (result * base) (f64_dec expo)
                  else Some (result, expo)) = Some y"
    show "expo \<noteq> e"
    proof
      assume "expo = e"
      with body ge same have "f base (result * base) e = Some y" by simp
      from IH [OF this] show False by simp
    qed
  qed
  show ?thesis using ne [of b r e] by (cases "pow_loop b r e") auto
qed


lemma pow_exact:
  assumes "is_f64 x" and "0 \<le> x" and "x \<le> 2 ^ 53"
  shows "pow b (Fin x) = Some (b ^ nat \<lfloor>x\<rfloor> * (1 + frac x * (b - 1)))"
proof (cases "x < 1")
  case True
  then have "\<lfloor>x\<rfloor> = 0" "frac x = x" using assms(2) by (auto simp: frac_def floor_eq_iff)
  then show ?thesis using True assms(2) by (auto simp: pow_def pow_loop_exact [OF assms])
next
  case False
  have "0 \<le> frac x" by simp
  then show ?thesis using False
    by (auto simp: pow_def pow_loop_exact [OF assms])
qed

lemma pow_NaN: "pow b NaN = Some 1"
  by (simp add: pow_def) (subst pow_loop.simps, simp)

lemma pow_PosInf: "pow b PosInf = None"
  by (simp add: pow_def pow_loop_stuck)


lemma f64_of_u64_0 [simp]: "f64_of_u64 0 = 0"
  by (simp add: f64_of_u64_def)

lemma f64_of_u64_nonneg: "0 \<le> f64_of_u64 n"
  unfolding f64_of_u64_def by (rule f64_round_nonneg) (simp del: of_nat_unat)

lemma f64_of_u64_pos: "n \<noteq> 0 \<Longrightarrow> 0 < f64_of_u64 n"
proof -
  assume "n \<noteq> 0"
  then have "0 < real (unat n)" by (simp add: unat_gt_0 del: of_nat_unat)
  then show ?thesis unfolding f64_of_u64_def by (rule f64_round_pos)
qed

lemma f64_of_u64_ge_1: "n \<noteq> 0 \<Longrightarrow> 1 \<le> f64_of_u64 n"
proof -
  assume "n \<noteq> 0"
  then have "0 < unat n" by (simp add: unat_gt_0)
  then have "1 \<le> real (unat n)" by (simp del: of_nat_unat)
  then show ?thesis unfolding f64_of_u64_def by (rule f64_round_ge_1)
qed

lemma f64_of_u64_exact: "unat n < 2 ^ 53 \<Longrightarrow> f64_of_u64 n = real (unat n)"
  unfolding f64_of_u64_def
  by (rule f64_round_exact) (simp_all add: is_f64_nat del: of_nat_unat)

lemma pow_exponent_props: "is_f64 (pow_exponent age h)" "0 \<le> pow_exponent age h"
proof -
  have "0 \<le> f64_of_u64 age / f64_of_u64 h"
    by (simp add: f64_of_u64_nonneg)
  then show "is_f64 (pow_exponent age h)" "0 \<le> pow_exponent age h"
    unfolding pow_exponent_def by (rule f64_round_is_f64, rule f64_round_nonneg)
qed

lemma pow_exponent_bound:
  assumes "unat age < 2 ^ 53" and "h \<noteq> 0"
  shows "pow_exponent age h \<le> 2 ^ 53"
proof -
  have a: "f64_of_u64 age = real (unat age)" using assms(1) by (rule f64_of_u64_exact)
  have h: "1 \<le> f64_of_u64 h" using assms(2) by (rule f64_of_u64_ge_1)
  have "real (unat age) / f64_of_u64 h \<le> real (unat age) / 1"
    using h by (intro divide_left_mono) (simp_all del: of_nat_unat)
  also have "\<dots> \<le> 2 ^ 53" using assms(1)
    by (simp del: of_nat_unat)
  finally have "f64_of_u64 age / f64_of_u64 h \<le> 2 ^ 53" unfolding a .
  moreover have "0 \<le> f64_of_u64 age / f64_of_u64 h" by (simp add: f64_of_u64_nonneg)
  ultimately show ?thesis unfolding pow_exponent_def by (intro f64_round_le_2_53)
qed

text \<open>
  With a half-life of 0 the exponent is \<open>+Inf\<close> for a positive age, and
  \<open>EffectiveWeight\<close> does not return; it is not-a-number for the age 0, which leaves
  the weight as it is.
\<close>

lemma EffectiveWeight_halfLife_0:
  "EffectiveWeight e now 0 = (if AgeSince (Timestamp e) now = 0 then Some (Weight e) else None)"
  using f64_of_u64_pos [of "AgeSince (Timestamp e) now"]
  by (auto simp add: EffectiveWeight_def f64_div_def Let_def pow_NaN pow_PosInf)

lemma EffectiveWeight_eq:
  assumes "h \<noteq> 0" and "pow_exponent (AgeSince (Timestamp e) now) h \<le> 2 ^ 53"
  shows "EffectiveWeight e now h =
           Some (Weight e *
             ((1 / 2) ^ nat \<lfloor>pow_exponent (AgeSince (Timestamp e) now) h\<rfloor>
              * (1 - frac (pow_exponent (AgeSince (Timestamp e) now) h) / 2)))"
proof -
  have h: "f64_of_u64 h \<noteq> 0" using f64_of_u64_pos [OF assms(1)] by simp
  have "EffectiveWeight e now h =
          (case pow (1 / 2) (Fin (pow_exponent (AgeSince (Timestamp e) now) h)) of
             None \<Rightarrow> None | Some decayFactor \<Rightarrow> Some (Weight e * decayFactor))"
    using h by (simp add: EffectiveWeight_def f64_div_def Let_def pow_exponent_def)
  then show ?thesis
    unfolding pow_exact [OF pow_exponent_props assms(2)] by simp
qed



lemma unat_AgeSince: "unat (AgeSince t now) = unat now - unat t"
  by (auto simp: AgeSince_def unat_sub word_less_nat_alt word_le_nat_alt not_less)

lemma expired_fields: "Timestamp expired = 0" "Weight expired = 1" "Kind expired = KindCausalEvent"
  by (simp_all add: expired_def NewCausalEvent_def)

lemma AgeSince_0: "AgeSince 0 now = now"
  by (simp add: AgeSince_def)

lemma pow_exponent_50_100: "pow_exponent 50 100 = 1 / 2"
proof -
  have "is_f64 (1 / 2)" by (rule is_f64I [of 1 _ "- 1"]) (simp_all add: pow2_def powr_minus)
  then have "f64_round (1 / 2) = 1 / 2" by (rule f64_round_exact) simp
  then show ?thesis by (simp add: pow_exponent_def f64_of_u64_exact)
qed

text \<open>
  Claim C4, as stated, fails: a record of weight 1 and age 50 under a half-life of 100
  has the effective weight 0.75, which is not \<open>0.5 powr (1/2)\<close>.
\<close>

theorem EffectiveWeight_not_exponential:
  "EffectiveWeight expired 50 100 = Some (3 / 4)
   \<and> decay_spec (Weight expired) (unat (AgeSince (Timestamp expired) 50)) (unat (100 :: 64 word))
        \<noteq> 3 / 4"
proof -
  have f: "\<lfloor>1 / 2 :: real\<rfloor> = 0" "frac (1 / 2 :: real) = 1 / 2"
    by (simp_all add: frac_def)
  have e: "EffectiveWeight expired 50 100 = Some (3 / 4)"
    using EffectiveWeight_eq [of 100 expired 50]
    by (simp add: expired_fields AgeSince_0 pow_exponent_50_100 f)
  have "(1 / 2 :: real) powr (1 / 2) = sqrt (1 / 2)"
    by (simp add: powr_half_sqrt)
  moreover have "sqrt (1 / 2 :: real) \<noteq> 3 / 4"
  proof
    assume s: "sqrt (1 / 2 :: real) = 3 / 4"
    have "(sqrt (1 / 2 :: real))\<^sup>2 = 1 / 2" by simp
    then have "(3 / 4 :: real)\<^sup>2 = 1 / 2" unfolding s .
    then show False by (simp add: power2_eq_square)
  qed
  ultimately have "decay_spec (Weight expired) (unat (AgeSince (Timestamp expired) 50))
      (unat (100 :: 64 word)) \<noteq> 3 / 4"
    by (simp add: decay_spec_def expired_fields AgeSince_0)
  with e show ?thesis by simp
qed

text \<open>
  Claim C4, amended. Let \<open>age = max(0, now - Timestamp)\<close> and let \<open>q\<close> be the exponent
  that \<open>pow\<close> receives, the binary64 quotient of \<open>age\<close> and the half-life
  (\<open>pow_exponent\<close>). For a half-life other than 0 and \<open>q \<le> 2^53\<close>, which holds
  whenever \<open>age < 2^53\<close>, \<open>EffectiveWeight\<close> returns the weight times
  \<open>0.5 ^ \<lfloor>q\<rfloor> * (1 - frac q / 2)\<close>: whole half-lives halve the weight and the
  fractional part is interpolated linearly, as \<open>pow\<close> says it approximates. The result is
  the weight times \<open>0.5 powr (age / halfLife)\<close> when the half-life divides the age, and
  the weight times 0.75 at half a half-life. Beyond the bound the loop of \<open>pow\<close> need not
  end (lemma \<open>EffectiveWeight_absorbed\<close> below).
\<close>

theorem EffectiveWeight_decay:
  assumes "hl \<noteq> 0" and "pow_exponent (AgeSince (Timestamp e) now) hl \<le> 2 ^ 53"
  shows "EffectiveWeight e now hl =
           Some (Weight e *
             ((1 / 2) ^ nat \<lfloor>pow_exponent (AgeSince (Timestamp e) now) hl\<rfloor>
              * (1 - frac (pow_exponent (AgeSince (Timestamp e) now) hl) / 2)))
         \<and> unat (AgeSince (Timestamp e) now) = unat now - unat (Timestamp e)
         \<and> (unat (AgeSince (Timestamp e) now) < 2 ^ 53 \<and> unat hl < 2 ^ 53 \<longrightarrow>
              pow_exponent (AgeSince (Timestamp e) now) hl
                = f64_round (real (unat (AgeSince (Timestamp e) now)) / real (unat hl)))
         \<and> (unat (AgeSince (Timestamp e) now) < 2 ^ 53
              \<and> unat hl dvd unat (AgeSince (Timestamp e) now) \<longrightarrow>
              EffectiveWeight e now hl =
                Some (decay_spec (Weight e) (unat (AgeSince (Timestamp e) now)) (unat hl)))
         \<and> (unat hl < 2 ^ 53 \<and> 2 * unat (AgeSince (Timestamp e) now) = unat hl \<longrightarrow>
              EffectiveWeight e now hl = Some (Weight e * (3 / 4)))"
proof -
  let ?age = "AgeSince (Timestamp e) now"
  let ?a = "unat ?age"
  let ?h = "unat hl"
  let ?q = "pow_exponent ?age hl"
  have h: "0 < ?h" using assms(1) by (simp add: unat_gt_0)
  have 1: "EffectiveWeight e now hl =
           Some (Weight e * ((1 / 2) ^ nat \<lfloor>?q\<rfloor> * (1 - frac ?q / 2)))"
    using assms by (rule EffectiveWeight_eq)
  have 2: "?q = f64_round (real ?a / real ?h)" if "?a < 2 ^ 53" "?h < 2 ^ 53"
    using that by (simp add: pow_exponent_def f64_of_u64_exact del: of_nat_unat)
  have 3: "EffectiveWeight e now hl = Some (decay_spec (Weight e) ?a ?h)"
    if a: "?a < 2 ^ 53" and d: "?h dvd ?a"
  proof -
    from d obtain k where k: "?a = ?h * k" by (auto simp: dvd_def)
    have kq: "real ?a / real ?h = real k" using h k by (simp del: of_nat_unat)
    have "k \<le> ?a" using h k by simp
    then have k53: "k < 2 ^ 53" using a by simp
    have "real ?a / f64_of_u64 hl = real k"
    proof (cases "?a = 0")
      case True
      then show ?thesis using h k by simp
    next
      case False
      then have "?h \<le> ?a" using d by (simp add: dvd_imp_le)
      then have "?h < 2 ^ 53" using a by simp
      then show ?thesis using kq by (simp add: f64_of_u64_exact del: of_nat_unat)
    qed
    then have q: "?q = real k"
      using f64_round_exact [OF is_f64_nat [OF k53]]
      by (simp add: pow_exponent_def f64_of_u64_exact [OF a] del: of_nat_unat)
    have "(1 / 2 :: real) powr real k = (1 / 2) ^ k"
      by (simp add: powr_realpow)
    then show ?thesis
      unfolding 1 decay_spec_def q kq by (simp del: of_nat_unat)
  qed
  have 4: "EffectiveWeight e now hl = Some (Weight e * (3 / 4))"
    if hb: "?h < 2 ^ 53" and d: "2 * ?a = ?h"
  proof -
    have ab: "?a < 2 ^ 53" using hb d by simp
    have "real ?h = 2 * real ?a" using d by (metis of_nat_mult of_nat_numeral)
    then have "real ?a / real ?h = 1 / 2" using h by (simp del: of_nat_unat)
    moreover have "is_f64 (1 / 2)"
      by (rule is_f64I [of 1 _ "- 1"]) (simp_all add: pow2_def powr_minus)
    then have "f64_round (1 / 2) = 1 / 2" by (rule f64_round_exact) simp
    ultimately have q: "?q = 1 / 2" using 2 [OF ab hb] by simp
    have f: "\<lfloor>1 / 2 :: real\<rfloor> = 0" "frac (1 / 2 :: real) = 1 / 2"
      by (simp_all add: frac_def)
    show ?thesis unfolding 1 q f by simp
  qed
  show ?thesis using 1 2 3 4 unat_AgeSince by blast
qed

text \<open>The amended claim at the ages 50 and 200 under a half-life of 100.\<close>

theorem EffectiveWeight_decay_witness:
  "EffectiveWeight expired 50 100 = Some (3 / 4)
   \<and> EffectiveWeight expired 200 100 = Some (1 / 4)
   \<and> EffectiveWeight expired 200 100 = Some (decay_spec (Weight expired) 200 100)"
proof -
  have n: "(100 :: 64 word) \<noteq> 0" by simp
  have b: "pow_exponent (AgeSince (Timestamp expired) 50) 100 \<le> 2 ^ 53"
    "pow_exponent (AgeSince (Timestamp expired) 200) 100 \<le> 2 ^ 53"
    by (rule pow_exponent_bound; simp add: expired_fields AgeSince_0)+
  have A: "EffectiveWeight expired 50 100 = Some (3 / 4)"
    using EffectiveWeight_decay [OF n b(1), THEN conjunct2, THEN conjunct2, THEN conjunct2,
      THEN conjunct2]
    by (simp add: expired_fields AgeSince_0)
  have C: "EffectiveWeight expired 200 100 = Some (decay_spec (Weight expired) 200 100)"
    using EffectiveWeight_decay [OF n b(2), THEN conjunct2, THEN conjunct2, THEN conjunct2,
      THEN conjunct1]
    by (simp add: expired_fields AgeSince_0)
  have "decay_spec (Weight expired) 200 100 = 1 / 4"
    by (simp add: decay_spec_def expired_fields powr_realpow [of "1 / 2" 2, simplified]
          power2_eq_square)
  with A C show ?thesis by simp
qed

section \<open>Belief from evidence\<close>

lemma floored_belief_unknown: "5 / 100 \<le> unknown (floored_belief ac dc)"
  by (simp add: floored_belief_def Let_def NewBelief_def NewConfidence_def UnknownBelief_def)


lemma belief_of_weights_unknown: "5 / 100 \<le> unknown (belief_of_weights a d t)"
proof (cases "t < 1 / 10 ^ 10")
  case True
  then show ?thesis by (simp add: belief_of_weights_def UnknownBelief_def)
next
  case False
  show ?thesis
    unfolding belief_of_weights_def Let_def if_not_P [OF False]
    by (rule floored_belief_unknown)
qed

text \<open>
  Whatever belief \<open>ComputeBelief\<close> returns has an unknown mass of at least 0.05, and it
  returns one when the half-life is not 0 and the exponent of every record is at most
  \<open>2^53\<close>.
\<close>

lemma returned_belief_unknown_floor:
  assumes "ComputeBelief es now = Some b"
  shows "5 / 100 \<le> unknown b"
proof (cases "IsEmpty es")
  case True
  with assms have "b = UnknownBelief" by (simp add: ComputeBelief_def)
  then show ?thesis by (simp add: UnknownBelief_def)
next
  case False
  with assms obtain a d t where "b = belief_of_weights a d t"
    by (auto simp: ComputeBelief_def split: option.splits)
  then show ?thesis using belief_of_weights_unknown [of a d t] by simp
qed



text \<open>
  At \<open>2^60\<close> the decrement is absorbed: \<open>2^60 - 1\<close> rounds back to \<open>2^60\<close>, and a record
  of that age under a half-life of 1 has no effective weight.
\<close>

lemma f64_round_absorbed: "f64_round 1152921504606846975 = 1152921504606846976"
proof -
  have l: "\<lfloor>log 2 (1152921504606846975 :: real)\<rfloor> = 59"
    by (rule floor_log2_eq) (simp_all add: pow2_nat)
  have u: "pow2 (59 - 52) = 128" by (simp add: pow2_nat)
  have r: "round_half_even (1152921504606846975 / 128) = 9007199254740992"
    by (simp add: round_half_even_def Let_def)
  have "f64_round 1152921504606846975
          = of_int (round_half_even (1152921504606846975
              / pow2 (\<lfloor>log 2 (1152921504606846975 :: real)\<rfloor> - 52)))
            * pow2 (\<lfloor>log 2 (1152921504606846975 :: real)\<rfloor> - 52)"
    by (rule f64_round_unfold) simp
  also have "\<dots> = of_int 9007199254740992 * 128" unfolding l u r ..
  finally show ?thesis by simp
qed

lemma EffectiveWeight_absorbed: "EffectiveWeight expired 1152921504606846976 1 = None"
proof -
  have "is_f64 (2 ^ 60)" by (rule is_f64I [of 1 _ 60]) (simp_all add: pow2_nat)
  then have big: "f64_round (2 ^ 60) = 2 ^ 60" by (rule f64_round_exact) simp
  have a: "f64_of_u64 1152921504606846976 = 2 ^ 60"
    using big by (simp add: f64_of_u64_def)
  have o: "f64_of_u64 1 = 1" using f64_of_u64_exact [of 1] by simp
  have "pow_loop (1 / 2) 1 (Fin (2 ^ 60)) = None"
    by (rule pow_loop_stuck) (simp_all add: f64_round_absorbed)
  then have "pow (1 / 2) (Fin (2 ^ 60)) = None" by (simp add: pow_def)
  then show ?thesis
    using big by (simp add: EffectiveWeight_def Let_def expired_fields AgeSince_0 a o f64_div_def)
qed

text \<open>
  Claim C5 speaks of the belief that \<open>ComputeBelief\<close> returns for every non-empty
  evidence set and every logical time. For two non-empty sets it returns none: the set
  made by \<open>WithHalfLife(0)\<close> holding one record of timestamp 0, asked at time 5, where
  the exponent of \<open>pow\<close> is \<open>5 / 0 = +Inf\<close>; and the set made by \<open>WithHalfLife(1)\<close>
  holding the same record, asked at time \<open>2^60\<close>, where the exponent \<open>2^60\<close> is not
  changed by \<open>exp--\<close>.
\<close>

theorem ComputeBelief_does_not_return:
  "\<not> IsEmpty zeroHalfLifeSet \<and> ComputeBelief zeroHalfLifeSet 5 = None
   \<and> \<not> IsEmpty unitHalfLifeSet \<and> ComputeBelief unitHalfLifeSet 1152921504606846976 = None"
proof -
  have "EffectiveWeight expired 5 0 = None"
    by (simp add: EffectiveWeight_halfLife_0 expired_fields AgeSince_0)
  then have 1: "ComputeBelief zeroHalfLifeSet 5 = None"
    by (simp add: ComputeBelief_def zeroHalfLifeSet_def WithHalfLife_def Add_def IsEmpty_def)
  have 2: "ComputeBelief unitHalfLifeSet 1152921504606846976 = None"
    using EffectiveWeight_absorbed
    by (simp add: ComputeBelief_def unitHalfLifeSet_def WithHalfLife_def Add_def IsEmpty_def)
  show ?thesis using 1 2
    by (simp add: zeroHalfLifeSet_def unitHalfLifeSet_def WithHalfLife_def Add_def IsEmpty_def)
qed




text \<open>
  Claim C6. For an evidence set whose records are all of kind \<open>Timeout\<close> or
  \<open>SchedulingJitter\<close>, with the non-negative weights that the factories give, whatever
  belief \<open>ComputeBelief\<close> returns has a dead mass of at most 0.90, hence below 0.95. It
  returns a belief whenever the half-life is not 0.
\<close>




section \<open>Aggregation of witness reports\<close>

lemma weighted_sums_eq:
  "weighted_sums reg rs (tw, sa, sd, su) =
     (tw + total_trust reg rs,
      sa + (\<Sum>r\<leftarrow>rs. GetTrust reg (Witness r) * alive (RBelief r)),
      sd + (\<Sum>r\<leftarrow>rs. GetTrust reg (Witness r) * dead (RBelief r)),
      su + (\<Sum>r\<leftarrow>rs. GetTrust reg (Witness r) * unknown (RBelief r)))"
  by (induction rs arbitrary: tw sa sd su) (simp_all add: total_trust_def Let_def mult.commute)

lemma total_diff_eq:
  "total_diff f rs t =
     t + (\<Sum>r\<leftarrow>rs. \<bar>alive f - alive (RBelief r)\<bar> + \<bar>dead f - dead (RBelief r)\<bar>)"
  by (induction rs arbitrary: t) (simp_all add: Let_def)

lemma detectCorrelation_corr: "2 \<le> length rs \<Longrightarrow> detectCorrelation rs = corr rs"
  by (simp add: detectCorrelation_def corr_def meanAbsDiffFromFirst_def total_diff_eq Let_def
        mult.commute)

lemma Aggregate_penalised:
  assumes "2 \<le> length rs" and "1 / 1000 \<le> total_trust reg rs" and "corr rs > 9 / 10"
  shows "ABelief (Aggregate reg rs) =
           belief_or_unknown (floor_unknown (widen (ADisagreement (Aggregate reg rs))
             (avg_alive reg rs * (7 / 10), avg_dead reg rs * (7 / 10),
              1 - avg_alive reg rs * (7 / 10) - avg_dead reg rs * (7 / 10))))"
proof -
  have l: "length rs \<noteq> 0" "length rs \<noteq> 1" using assms(1) by auto
  have t: "\<not> total_trust reg rs < 1 / 1000" using assms(2) by simp
  have c: "detectCorrelation rs > 9 / 10"
    using assms by (simp add: detectCorrelation_corr)
  show ?thesis
    unfolding Aggregate_def weighted_sums_eq
    using l t c
    by (auto simp add: Let_def penalise_def avg_alive_def avg_dead_def)
qed


lemma GetTrust_Register: "GetTrust (Register r w) n = GetTrust r n"
  by (simp add: GetTrust_def Register_def fresh_record_def split: option.splits)

lemma feed_Cons: "feed ora (w # ws) t b = feed (ReceiveReport ora w t b) ws t b"
  by (simp add: feed_def)

lemma feed_state:
  "reports_for (feed ora ws t b) t =
     reports_for ora t @ map (\<lambda>w. \<lparr>Witness = w, Target = t, RBelief = b, RTrust = 0\<rparr>) ws
   \<and> finality (feed ora ws t b) = finality ora
   \<and> partition (feed ora ws t b) = partition ora
   \<and> GetTrust (registry (feed ora ws t b)) n = GetTrust (registry ora) n"
proof (induction ws arbitrary: ora)
  case Nil
  then show ?case by (simp add: feed_def)
next
  case (Cons w ws)
  show ?case
    using Cons.IH [of "ReceiveReport ora w t b"]
    by (simp add: feed_Cons ReceiveReport_def reports_for_def GetTrust_Register)
qed

lemma variance_loop_same:
  "\<forall>r \<in> set rs. alive (RBelief r) = a \<and> dead (RBelief r) = d \<Longrightarrow> variance_loop rs a d v = v"
  by (induction rs arbitrary: v) (simp_all add: Let_def)

lemma Dominant_confidentAlive: "Dominant confidentAlive = StateAlive"
  by (simp add: Dominant_def confidentAlive_def DominantMargin_def)

lemma identical_reports:
  fixes ws :: "NodeID list" and t :: NodeID
  defines "rs \<equiv> map (\<lambda>w. \<lparr>Witness = w, Target = t, RBelief = confidentAlive, RTrust = 0\<rparr>) ws"
  assumes n: "2 \<le> length ws" and tr: "\<And>n. GetTrust reg n = 8 / 10"
  shows "ABelief (Aggregate reg rs) = \<lparr>alive = 665 / 1000, dead = 21 / 1000, unknown = 314 / 1000\<rparr>"
    and "ADisagreement (Aggregate reg rs) = 0"
    and "fst (Analyze d rs t) = (NoPartition, None)"
proof -
  have len: "length rs = length ws" by (simp add: rs_def)
  have pos: "0 < real (length ws)" using n by auto
  have tt: "total_trust reg rs = 8 / 10 * real (length ws)"
    by (simp add: total_trust_def rs_def tr o_def sum_list_triv)
  have aa: "avg_alive reg rs = 95 / 100"
    using pos by (simp add: avg_alive_def tt) (simp add: rs_def tr o_def sum_list_triv confidentAlive_def)
  have ad: "avg_dead reg rs = 3 / 100"
    using pos by (simp add: avg_dead_def tt) (simp add: rs_def tr o_def sum_list_triv confidentAlive_def)
  have co: "corr rs = 1"
    by (simp add: corr_def meanAbsDiffFromFirst_def rs_def o_def)
       (cases ws; simp add: o_def)
  have same: "\<forall>r \<in> set rs. alive (RBelief r) = 95 / 100 \<and> dead (RBelief r) = 3 / 100"
    by (simp add: rs_def confidentAlive_def)
  have sums: "weighted_sums reg rs (0, 0, 0, 0) =
        (total_trust reg rs, avg_alive reg rs * total_trust reg rs,
         avg_dead reg rs * total_trust reg rs,
         (\<Sum>r\<leftarrow>rs. GetTrust reg (Witness r) * unknown (RBelief r)))"
    using pos by (simp add: weighted_sums_eq avg_alive_def avg_dead_def tt)
  have vl: "variance_loop rs (19 / 20) (3 / 100) 0 = 0"
    using variance_loop_same [OF same, of 0] by simp
  show dis: "ADisagreement (Aggregate reg rs) = 0"
    using n pos
    by (simp add: Aggregate_def sums Let_def len tt aa ad Aggregator_calculateDisagreement_def vl)
  have "1 / 1000 \<le> total_trust reg rs" using n by (simp add: tt)
  from Aggregate_penalised [OF _ this, unfolded dis aa ad co] n
  show "ABelief (Aggregate reg rs) = \<lparr>alive = 665 / 1000, dead = 21 / 1000, unknown = 314 / 1000\<rparr>"
    by (simp add: len widen_def floor_unknown_def belief_or_unknown_def NewBelief_def
          NewConfidence_def BeliefSumEpsilon_def)
  have v: "votes StateAlive rs = length ws" "votes StateDead rs = 0" "votes StateUnknown rs = 0"
    by (simp_all add: votes_def rs_def o_def Dominant_confidentAlive)
  show "fst (Analyze d rs t) = (NoPartition, None)"
    using n by (simp add: Analyze_general v len)
qed


lemma GetTrust_New: "GetTrust NewRegistry n = 8 / 10"
  by (simp add: GetTrust_def NewRegistry_def DefaultTrust_def)

lemma Query_identical:
  assumes n: "2 \<le> length ws"
  shows "fst (Query (feed (New self) ws t confidentAlive) t) =
           \<lparr>QTarget = t,
            QBelief = \<lparr>alive = 665 / 1000, dead = 21 / 1000, unknown = 314 / 1000\<rparr>,
            Refused = False, RefusalReason = [], Dead = False,
            QWitnessCount = length ws, QDisagreement = 0, QPartitionState = NoPartition,
            QEvidence = [''aggregated '' @ itoa (length ws) @ '' witness reports'']\<rparr>"
proof -
  let ?ora = "feed (New self) ws t confidentAlive"
  let ?rs = "map (\<lambda>w. \<lparr>Witness = w, Target = t, RBelief = confidentAlive, RTrust = 0\<rparr>) ws"
  have st: "reports_for ?ora t = ?rs" "finality ?ora = NewEngine" "partition ?ora = NewDetector"
    using feed_state [of "New self" ws t confidentAlive]
    by (simp_all add: New_def reports_for_def)
  have tr: "GetTrust (registry ?ora) n = 8 / 10" for n
    using feed_state [of "New self" ws t confidentAlive n]
    by (simp add: New_def GetTrust_New)
  note ir = identical_reports [OF n tr, where t = t]
  obtain det where an: "Analyze NewDetector ?rs t = ((NoPartition, None), det)"
    using ir(3) [where d = NewDetector] by (metis prod.collapse)
  have len: "length ?rs \<noteq> 0" using n by auto
  show ?thesis
    using len
    by (simp add: Query_def QueryWithRequirement_def st IsDead_def NewEngine_def Let_def an ir(1,2)
          QueryResult_zero_def check_unknown_def DefaultRequirement_def)
qed


text \<open>
  Claim C8. In \<open>Aggregate\<close>, for two or more reports whose total trust is at least
  0.001: when the correlation score \<open>1 - min(2 \<cdot> meanAbsDiffFromFirst, 1)\<close> exceeds 0.9, the
  trust-weighted averages of alive and dead are each multiplied by 0.7 and unknown is
  recomputed as \<open>1 - alive - dead\<close>, and the belief is what the rest of the function
  (widening, floor, construction) makes of these three numbers. Consequently a new
  oracle that has received ten reports of the belief (0.95, 0.03, 0.02) for a target
  answers a query for it, without refusing, with the alive mass 0.665, which is at most
  0.85.
\<close>

theorem correlation_penalty:
  "(2 \<le> length rs \<and> 1 / 1000 \<le> total_trust reg rs \<and> corr rs > 9 / 10 \<longrightarrow>
      ABelief (Aggregate reg rs) =
        belief_or_unknown (floor_unknown (widen (ADisagreement (Aggregate reg rs))
          (avg_alive reg rs * (7 / 10), avg_dead reg rs * (7 / 10),
           1 - avg_alive reg rs * (7 / 10) - avg_dead reg rs * (7 / 10)))))
   \<and> (length ws = 10 \<longrightarrow>
        \<not> Refused (fst (Query (feed (New self) ws t confidentAlive) t))
        \<and> alive (QBelief (fst (Query (feed (New self) ws t confidentAlive) t))) = 665 / 1000
        \<and> alive (QBelief (fst (Query (feed (New self) ws t confidentAlive) t))) \<le> 85 / 100)"
proof -
  have "\<not> Refused (fst (Query (feed (New self) ws t confidentAlive) t))
        \<and> alive (QBelief (fst (Query (feed (New self) ws t confidentAlive) t))) = 665 / 1000
        \<and> alive (QBelief (fst (Query (feed (New self) ws t confidentAlive) t))) \<le> 85 / 100"
    if "length ws = 10"
  proof -
    from that have "2 \<le> length ws" by simp
    from Query_identical [OF this, of self t] show ?thesis by simp
  qed
  then show ?thesis using Aggregate_penalised [of rs reg] by blast
qed

theorem correlation_penalty_witness:
  "alive (QBelief (fst (Query (feed (New (NewNodeID 1)) tenWitnesses (NewNodeID 99) confidentAlive)
      (NewNodeID 99)))) \<le> 85 / 100
   \<and> ABelief (Aggregate NewRegistry
        (map (\<lambda>w. \<lparr>Witness = w, Target = NewNodeID 99, RBelief = confidentAlive, RTrust = 0\<rparr>)
           tenWitnesses)) =
       \<lparr>alive = 665 / 1000, dead = 21 / 1000, unknown = 314 / 1000\<rparr>"
proof -
  let ?rs = "map (\<lambda>w. \<lparr>Witness = w, Target = NewNodeID 99, RBelief = confidentAlive, RTrust = 0\<rparr>)
               tenWitnesses"
  have l: "length tenWitnesses = 10" "2 \<le> length ?rs"
    by (simp_all add: tenWitnesses_def)
  have t: "total_trust NewRegistry ?rs = 8" "avg_alive NewRegistry ?rs = 95 / 100"
    "avg_dead NewRegistry ?rs = 3 / 100"
    by (simp_all add: avg_alive_def avg_dead_def total_trust_def tenWitnesses_def GetTrust_New
          confidentAlive_def)
  have c: "corr ?rs = 1"
    by (simp add: corr_def meanAbsDiffFromFirst_def tenWitnesses_def)
  have d: "ADisagreement (Aggregate NewRegistry ?rs) = 0"
    using identical_reports(2) [of tenWitnesses NewRegistry "NewNodeID 99"] l
    by (simp add: GetTrust_New)
  have A: "alive (QBelief (fst (Query (feed (New (NewNodeID 1)) tenWitnesses (NewNodeID 99)
              confidentAlive) (NewNodeID 99)))) \<le> 85 / 100"
    using correlation_penalty [of "[]" NewRegistry tenWitnesses "NewNodeID 1" "NewNodeID 99"] l
    by simp
  have B: "ABelief (Aggregate NewRegistry ?rs) =
             \<lparr>alive = 665 / 1000, dead = 21 / 1000, unknown = 314 / 1000\<rparr>"
    using correlation_penalty [of ?rs NewRegistry "[]" "NewNodeID 1" "NewNodeID 99"] l(2)
    by (simp add: t c d widen_def floor_unknown_def belief_or_unknown_def NewBelief_def
          NewConfidence_def BeliefSumEpsilon_def)
  show ?thesis using A B by simp
qed


section \<open>Oracle queries\<close>

lemma sqrt_400: "sqrt (1 / 400) = 1 / 20"
  by (rule real_sqrt_unique) (simp_all add: power2_eq_square)

lemma two_reports_query:
  assumes rs: "reports_for ora t = rs" and len: "length rs = 2"
    and st: "finality ora = NewEngine" "partition ora = NewDetector"
    and an: "fst (Analyze NewDetector rs t) = (NoPartition, None)"
    and gate: "\<not> (alive (ABelief (Aggregate (registry ora) rs)) > 0
                  \<and> alive (ABelief (Aggregate (registry ora) rs)) < MinAlive req
                  \<and> dead (ABelief (Aggregate (registry ora) rs)) > 0
                  \<and> dead (ABelief (Aggregate (registry ora) rs)) < MinDead req)"
  shows "fst (QueryWithRequirement ora t req) =
           check_unknown
             ((QueryResult_zero t)
                \<lparr>QWitnessCount := 2, QPartitionState := NoPartition,
                 QBelief := ABelief (Aggregate (registry ora) rs),
                 QDisagreement := ADisagreement (Aggregate (registry ora) rs)\<rparr>)
             (Aggregate (registry ora) rs) req 2"
proof -
  obtain det where det: "Analyze NewDetector rs t = ((NoPartition, None), det)"
    using an by (metis prod.collapse)
  show ?thesis
    using len gate
    by (auto simp add: QueryWithRequirement_def rs st IsDead_def NewEngine_def Let_def det)
qed

lemma aliveOnly_query:
  "QBelief (fst (QueryWithRequirement aliveOnlyOracle (NewNodeID 99) bothRequirement))
       = \<lparr>alive = 65 / 100, dead = 0, unknown = 35 / 100\<rparr>
   \<and> \<not> Refused (fst (QueryWithRequirement aliveOnlyOracle (NewNodeID 99) bothRequirement))"
proof -
  have rs: "reports_for aliveOnlyOracle (NewNodeID 99) = aliveOnlyReports"
    by (simp add: aliveOnlyOracle_def aliveOnlyReports_def ReceiveReport_def New_def
          reports_for_def)
  have st: "finality aliveOnlyOracle = NewEngine" "partition aliveOnlyOracle = NewDetector"
    by (simp_all add: aliveOnlyOracle_def ReceiveReport_def New_def)
  have tr: "GetTrust (registry aliveOnlyOracle) n = 8 / 10" for n
    by (simp add: aliveOnlyOracle_def ReceiveReport_def New_def GetTrust_Register GetTrust_New)
  have v: "votes StateAlive aliveOnlyReports = 2" "votes StateDead aliveOnlyReports = 0"
    "votes StateUnknown aliveOnlyReports = 0" "length aliveOnlyReports = 2"
    by (simp_all add: votes_def aliveOnlyReports_def Dominant_def DominantMargin_def)
  have an: "fst (Analyze NewDetector aliveOnlyReports (NewNodeID 99)) = (NoPartition, None)"
    by (simp add: Analyze_general v)
  have ag: "ABelief (Aggregate (registry aliveOnlyOracle) aliveOnlyReports)
              = \<lparr>alive = 65 / 100, dead = 0, unknown = 35 / 100\<rparr>"
    by (simp add: Aggregate_def aliveOnlyReports_def tr Let_def
          Aggregator_calculateDisagreement_def detectCorrelation_def penalise_def widen_def
          floor_unknown_def belief_or_unknown_def NewBelief_def NewConfidence_def
          BeliefSumEpsilon_def power2_eq_square sqrt_400)
  have q: "fst (QueryWithRequirement aliveOnlyOracle (NewNodeID 99) bothRequirement) =
           check_unknown
             ((QueryResult_zero (NewNodeID 99))
                \<lparr>QWitnessCount := 2, QPartitionState := NoPartition,
                 QBelief := ABelief (Aggregate (registry aliveOnlyOracle) aliveOnlyReports),
                 QDisagreement :=
                   ADisagreement (Aggregate (registry aliveOnlyOracle) aliveOnlyReports)\<rparr>)
             (Aggregate (registry aliveOnlyOracle) aliveOnlyReports) bothRequirement 2"
    by (rule two_reports_query [OF rs v(4) st an]) (simp add: ag)
  show ?thesis
    unfolding q
    by (simp add: check_unknown_def ag bothRequirement_def Let_def QueryResult_zero_def)
qed

lemma leaning_query:
  "QBelief (fst (QueryWithRequirement leaningOracle (NewNodeID 99) aliveRequirement))
       = \<lparr>alive = 65 / 100, dead = 10 / 100, unknown = 25 / 100\<rparr>
   \<and> \<not> Refused (fst (QueryWithRequirement leaningOracle (NewNodeID 99) aliveRequirement))"
proof -
  have rs: "reports_for leaningOracle (NewNodeID 99) = leaningReports"
    by (simp add: leaningOracle_def leaningReports_def ReceiveReport_def New_def reports_for_def)
  have st: "finality leaningOracle = NewEngine" "partition leaningOracle = NewDetector"
    by (simp_all add: leaningOracle_def ReceiveReport_def New_def)
  have tr: "GetTrust (registry leaningOracle) n = 8 / 10" for n
    by (simp add: leaningOracle_def ReceiveReport_def New_def GetTrust_Register GetTrust_New)
  have v: "votes StateAlive leaningReports = 2" "votes StateDead leaningReports = 0"
    "votes StateUnknown leaningReports = 0" "length leaningReports = 2"
    by (simp_all add: votes_def leaningReports_def Dominant_def DominantMargin_def)
  have an: "fst (Analyze NewDetector leaningReports (NewNodeID 99)) = (NoPartition, None)"
    by (simp add: Analyze_general v)
  have ag: "ABelief (Aggregate (registry leaningOracle) leaningReports)
              = \<lparr>alive = 65 / 100, dead = 10 / 100, unknown = 25 / 100\<rparr>"
    by (simp add: Aggregate_def leaningReports_def tr Let_def Aggregator_calculateDisagreement_def
          detectCorrelation_def penalise_def widen_def floor_unknown_def belief_or_unknown_def
          NewBelief_def NewConfidence_def BeliefSumEpsilon_def power2_eq_square sqrt_400)
  have q: "fst (QueryWithRequirement leaningOracle (NewNodeID 99) aliveRequirement) =
           check_unknown
             ((QueryResult_zero (NewNodeID 99))
                \<lparr>QWitnessCount := 2, QPartitionState := NoPartition,
                 QBelief := ABelief (Aggregate (registry leaningOracle) leaningReports),
                 QDisagreement := ADisagreement (Aggregate (registry leaningOracle) leaningReports)\<rparr>)
             (Aggregate (registry leaningOracle) leaningReports) aliveRequirement 2"
    by (rule two_reports_query [OF rs v(4) st an]) (simp add: ag aliveRequirement_def)
  show ?thesis
    unfolding q
    by (simp add: check_unknown_def ag aliveRequirement_def Let_def QueryResult_zero_def)
qed

text \<open>
  Claim C3 does not hold of the code. The oracle \<open>aliveOnlyOracle\<close> has two reports for
  node 99, (0.6, 0, 0.4) and (0.7, 0, 0.3); the node is not dead and there is no
  partition. The aggregated belief is (0.65, 0, 0.35): its dominant state is alive and
  its alive mass is positive and below \<open>MinAlive = 0.7\<close>; its dead mass is below
  \<open>MinDead = 0.7\<close> too. The query is answered all the same, not refused: the refusal sits
  under a second test, \<open>0 < dead < MinDead\<close>, that a dead mass of 0 fails. A requirement
  with \<open>MinDead = 0\<close>, as the repository's own test of the requirements uses, can never
  pass that test: \<open>leaningOracle\<close>, with the aggregated belief (0.65, 0.10, 0.25), is
  answered under \<open>MinAlive = 0.7\<close> as well.
\<close>

theorem insufficient_confidence_not_refused:
  "Dominant (QBelief (fst (QueryWithRequirement aliveOnlyOracle (NewNodeID 99) bothRequirement)))
     = StateAlive
   \<and> 0 < alive (QBelief (fst (QueryWithRequirement aliveOnlyOracle (NewNodeID 99) bothRequirement)))
   \<and> alive (QBelief (fst (QueryWithRequirement aliveOnlyOracle (NewNodeID 99) bothRequirement)))
       < MinAlive bothRequirement
   \<and> \<not> Refused (fst (QueryWithRequirement aliveOnlyOracle (NewNodeID 99) bothRequirement))
   \<and> Dominant (QBelief (fst (QueryWithRequirement leaningOracle (NewNodeID 99) aliveRequirement)))
       = StateAlive
   \<and> 0 < alive (QBelief (fst (QueryWithRequirement leaningOracle (NewNodeID 99) aliveRequirement)))
   \<and> alive (QBelief (fst (QueryWithRequirement leaningOracle (NewNodeID 99) aliveRequirement)))
       < MinAlive aliveRequirement
   \<and> \<not> Refused (fst (QueryWithRequirement leaningOracle (NewNodeID 99) aliveRequirement))"
  using aliveOnly_query leaning_query
  by (simp add: Dominant_def DominantMargin_def bothRequirement_def aliveRequirement_def)

end
